theory Spec2Isabelle
  imports Main "HOL-Library.Word"
begin

section \<open>The libspf2 binding (spf2.go)\<close>

text \<open>
  The Go file is a cgo binding: every piece of SPF work is a call into the C library
  libspf2. The model keeps the Go control flow as it is written and makes the C side
  explicit: the objects the library has allocated (servers, requests, responses) live
  in a store indexed by handles, and every call into the library is appended to a log.
  What the library answers is not in the Go file; it is a parameter of the model
  (the record \<open>foreign\<close>), so every theorem holds for any behaviour of the library.
\<close>

subsection \<open>Values\<close>

text \<open>
  \<open>type Result int\<close>, with one constant per enumerator of the C enumeration
  \<open>SPF_result_t\<close> (lines 19 to 28).
\<close>

datatype Result =
    SPFResultINVALID
  | SPFResultPASS
  | SPFResultFAIL
  | SPFResultSOFTFAIL
  | SPFResultNEUTRAL
  | SPFResultPERMERROR
  | SPFResultTEMPERROR
  | SPFResultNONE

text \<open>
  \<open>C.SPF_errcode_t\<close>: the Go code only compares a status with \<open>SPF_E_SUCCESS\<close>;
  every other enumerator is kept by its number.
\<close>

datatype SPF_errcode_t = SPF_E_SUCCESS | SPF_E_OTHER nat

text \<open>
  The two kinds of Go \<open>error\<close> the file builds: \<open>errors.New(msg)\<close> and
  \<open>&spfError{code}\<close>. A returned \<open>error\<close> is a \<open>go_error option\<close>, \<open>None\<close> for nil.
\<close>

datatype go_error = errors_New string | spfError SPF_errcode_t

text \<open>\<open>net.IP\<close> is a byte slice.\<close>

type_synonym IP = "8 word list"

text \<open>
  \<open>ip.To4()\<close> of the Go standard library: a 4-byte slice is returned as it is, a
  16-byte slice that holds an IPv4-mapped address gives its last four bytes, anything
  else gives nil.
\<close>

definition isZeros :: "IP \<Rightarrow> bool" where
  "isZeros p = list_all (\<lambda>b. b = 0) p"

definition To4 :: "IP \<Rightarrow> IP option" where
  "To4 ip =
     (if length ip = 4 then Some ip
      else if length ip = 16 \<and> isZeros (take 10 ip) \<and> ip ! 10 = 0xff \<and> ip ! 11 = 0xff
      then Some (drop 12 ip)
      else None)"

subsection \<open>The C side\<close>

type_synonym handle = nat

text \<open>What the setters have stored in a \<open>SPF_request_t\<close>.\<close>

record SPF_request_t =
  env_from :: "string option"
  ipv4 :: "string option"
  ipv6 :: "string option"

definition SPF_request_empty :: SPF_request_t where
  "SPF_request_empty = \<lparr>env_from = None, ipv4 = None, ipv6 = None\<rparr>"

text \<open>The calls into libspf2, with the pointers passed (\<open>None\<close> is NULL).\<close>

datatype ccall =
    C_SPF_server_new handle
  | C_SPF_server_free handle
  | C_SPF_request_new "handle option" handle
  | C_SPF_request_set_env_from "handle option" string
  | C_SPF_request_set_ipv4_str "handle option" string
  | C_SPF_request_set_ipv6_str "handle option" string
  | C_SPF_request_query_mailfrom "handle option"
  | C_SPF_request_free handle
  | C_SPF_response_result "handle option"
  | C_SPF_response_free handle

text \<open>
  The state of the C side: the live objects and the log of calls, oldest first.
  \<open>'resp\<close> is the content of a \<open>SPF_response_t\<close>, opaque to the Go code.
\<close>

record 'resp cworld =
  servers :: "handle list"
  requests :: "(handle \<times> SPF_request_t) list"
  responses :: "(handle \<times> 'resp) list"
  calls :: "ccall list"

text \<open>
  The functions the file calls and does not define: libspf2 through cgo, and
  \<open>net.IP.String\<close>. \<open>SPF_request_query_mailfrom\<close> reads the request behind the pointer
  and returns a status together with the response it leaves in \<open>resp\<close> (\<open>None\<close> when
  it leaves NULL); \<open>SPF_response_result\<close> is given the response behind the pointer.
\<close>

record 'resp foreign =
  SPF_request_set_env_from :: "string \<Rightarrow> SPF_errcode_t"
  SPF_request_set_ipv4_str :: "string \<Rightarrow> SPF_errcode_t"
  SPF_request_set_ipv6_str :: "string \<Rightarrow> SPF_errcode_t"
  SPF_request_query_mailfrom :: "SPF_request_t option \<Rightarrow> SPF_errcode_t \<times> 'resp option"
  SPF_response_result :: "'resp option \<Rightarrow> Result"
  SPF_strerror :: "SPF_errcode_t \<Rightarrow> string"
  IP_String :: "IP \<Rightarrow> string"

text \<open>An allocation by the library is taken to succeed; it returns a handle that no live object has.\<close>

definition live :: "'resp cworld \<Rightarrow> handle list" where
  "live w = servers w @ map fst (requests w) @ map fst (responses w)"

definition fresh_handle :: "'resp cworld \<Rightarrow> handle" where
  "fresh_handle w = Suc (foldr max (live w) 0)"

definition store_get :: "handle option \<Rightarrow> (handle \<times> 'a) list \<Rightarrow> 'a option" where
  "store_get p st = (case p of None \<Rightarrow> None | Some h \<Rightarrow> map_of st h)"

definition store_upd :: "handle option \<Rightarrow> ('a \<Rightarrow> 'a) \<Rightarrow> (handle \<times> 'a) list \<Rightarrow> (handle \<times> 'a) list" where
  "store_upd p f st =
     (case p of
        None \<Rightarrow> st
      | Some h \<Rightarrow> map (\<lambda>kv. if fst kv = h then (fst kv, f (snd kv)) else kv) st)"

definition store_del :: "handle \<Rightarrow> (handle \<times> 'a) list \<Rightarrow> (handle \<times> 'a) list" where
  "store_del h st = filter (\<lambda>kv. fst kv \<noteq> h) st"

subsection \<open>The Go side\<close>

record clientImpl =
  clientImpl_s :: "handle option"

record request =
  request_s :: clientImpl
  request_r :: "handle option"

record response =
  response_r :: "handle option"

text \<open>\<open>NewClient\<close> (lines 40 to 44).\<close>

definition NewClient :: "'resp cworld \<Rightarrow> clientImpl \<times> 'resp cworld" where
  "NewClient w =
     (let h = fresh_handle w
      in (\<lparr>clientImpl_s = Some h\<rparr>,
          w\<lparr>servers := h # servers w, calls := calls w @ [C_SPF_server_new h]\<rparr>))"

text \<open>\<open>Close\<close> (lines 66 to 71).\<close>

definition Close :: "clientImpl \<Rightarrow> 'resp cworld \<Rightarrow> clientImpl \<times> 'resp cworld" where
  "Close c w =
     (case clientImpl_s c of
        None \<Rightarrow> (c, w)
      | Some h \<Rightarrow>
          (c\<lparr>clientImpl_s := None\<rparr>,
           w\<lparr>servers := removeAll h (servers w), calls := calls w @ [C_SPF_server_free h]\<rparr>))"

text \<open>\<open>newRequest\<close> (lines 78 to 83).\<close>

definition newRequest :: "clientImpl \<Rightarrow> 'resp cworld \<Rightarrow> request \<times> 'resp cworld" where
  "newRequest c w =
     (let h = fresh_handle w
      in (\<lparr>request_s = c, request_r = Some h\<rparr>,
          w\<lparr>requests := (h, SPF_request_empty) # requests w,
            calls := calls w @ [C_SPF_request_new (clientImpl_s c) h]\<rparr>))"

text \<open>
  \<open>setIpAddr\<close> (lines 86 to 99). The C copy of the string is freed by the deferred
  \<open>C.free\<close> before the function returns and is left out of the store.
\<close>

definition setIpAddr :: "'resp foreign \<Rightarrow> request \<Rightarrow> IP \<Rightarrow> 'resp cworld \<Rightarrow> go_error option \<times> 'resp cworld" where
  "setIpAddr L r ip w =
     (let cstring = IP_String L ip;
          (stat, w') =
            (if To4 ip \<noteq> None
             then (SPF_request_set_ipv4_str L cstring,
                   w\<lparr>requests :=
                        (if SPF_request_set_ipv4_str L cstring = SPF_E_SUCCESS
                         then store_upd (request_r r) (\<lambda>q. q\<lparr>ipv4 := Some cstring\<rparr>) (requests w)
                         else requests w),
                     calls := calls w @ [C_SPF_request_set_ipv4_str (request_r r) cstring]\<rparr>)
             else (SPF_request_set_ipv6_str L cstring,
                   w\<lparr>requests :=
                        (if SPF_request_set_ipv6_str L cstring = SPF_E_SUCCESS
                         then store_upd (request_r r) (\<lambda>q. q\<lparr>ipv6 := Some cstring\<rparr>) (requests w)
                         else requests w),
                     calls := calls w @ [C_SPF_request_set_ipv6_str (request_r r) cstring]\<rparr>))
      in if stat \<noteq> SPF_E_SUCCESS then (Some (spfError stat), w') else (None, w'))"

text \<open>\<open>setEnvFrom\<close> (lines 102 to 111).\<close>

definition setEnvFrom :: "'resp foreign \<Rightarrow> request \<Rightarrow> string \<Rightarrow> 'resp cworld \<Rightarrow> go_error option \<times> 'resp cworld" where
  "setEnvFrom L r from w =
     (let stat = SPF_request_set_env_from L from;
          w' = w\<lparr>requests :=
                   (if stat = SPF_E_SUCCESS
                    then store_upd (request_r r) (\<lambda>q. q\<lparr>env_from := Some from\<rparr>) (requests w)
                    else requests w),
                 calls := calls w @ [C_SPF_request_set_env_from (request_r r) from]\<rparr>
      in if stat \<noteq> SPF_E_SUCCESS then (Some (spfError stat), w') else (None, w'))"

text \<open>
  \<open>query\<close> (lines 114 to 122). A response the library has left in \<open>resp\<close> is a new
  live object, whatever the status; on a status other than \<open>SPF_E_SUCCESS\<close> the Go
  code returns a nil response and drops the pointer.
\<close>

definition request_query :: "'resp foreign \<Rightarrow> request \<Rightarrow> 'resp cworld \<Rightarrow> (go_error + response) \<times> 'resp cworld" where
  "request_query L r w =
     (let (stat, out) = SPF_request_query_mailfrom L (store_get (request_r r) (requests w));
          h = fresh_handle w;
          resp = (case out of None \<Rightarrow> None | Some v \<Rightarrow> Some h);
          w' = w\<lparr>responses := (case out of None \<Rightarrow> responses w | Some v \<Rightarrow> (h, v) # responses w),
                 calls := calls w @ [C_SPF_request_query_mailfrom (request_r r)]\<rparr>
      in if stat \<noteq> SPF_E_SUCCESS then (Inl (spfError stat), w')
         else (Inr \<lparr>response_r = resp\<rparr>, w'))"

text \<open>\<open>request.free\<close> (lines 125 to 130).\<close>

definition request_free :: "request \<Rightarrow> 'resp cworld \<Rightarrow> request \<times> 'resp cworld" where
  "request_free r w =
     (case request_r r of
        None \<Rightarrow> (r, w)
      | Some h \<Rightarrow>
          (r\<lparr>request_r := None\<rparr>,
           w\<lparr>requests := store_del h (requests w), calls := calls w @ [C_SPF_request_free h]\<rparr>))"

text \<open>\<open>response.result\<close> (lines 137 to 139).\<close>

definition response_result :: "'resp foreign \<Rightarrow> response \<Rightarrow> 'resp cworld \<Rightarrow> Result \<times> 'resp cworld" where
  "response_result L r w =
     (SPF_response_result L (store_get (response_r r) (responses w)),
      w\<lparr>calls := calls w @ [C_SPF_response_result (response_r r)]\<rparr>)"

text \<open>\<open>response.free\<close> (lines 142 to 147).\<close>

definition response_free :: "response \<Rightarrow> 'resp cworld \<Rightarrow> response \<times> 'resp cworld" where
  "response_free r w =
     (case response_r r of
        None \<Rightarrow> (r, w)
      | Some h \<Rightarrow>
          (r\<lparr>response_r := None\<rparr>,
           w\<lparr>responses := store_del h (responses w), calls := calls w @ [C_SPF_response_free h]\<rparr>))"

text \<open>
  \<open>Query\<close> (lines 46 to 64). It returns the pair \<open>(Result, error)\<close>; the client and
  the C side are threaded through. The deferred calls run at each return after the
  \<open>defer\<close> statement that registered them, last registered first: \<open>resp.free\<close> before
  \<open>req.free\<close>, both after the returned value has been computed.
\<close>

definition Query :: "'resp foreign \<Rightarrow> clientImpl \<Rightarrow> string \<Rightarrow> IP \<Rightarrow> 'resp cworld \<Rightarrow> (Result \<times> go_error option) \<times> clientImpl \<times> 'resp cworld" where
  "Query L c host ip w =
     (if clientImpl_s c = None
      then ((SPFResultINVALID, Some (errors_New ''client already closed'')), c, w)
      else
        let (req, w1) = newRequest c w;
            (err1, w2) = setEnvFrom L req host w1
        in if err1 \<noteq> None
           then ((SPFResultINVALID, err1), c, snd (request_free req w2))
           else
             let (err2, w3) = setIpAddr L req ip w2
             in if err2 \<noteq> None
                then ((SPFResultINVALID, err2), c, snd (request_free req w3))
                else
                  (case request_query L req w3 of
                     (Inl err, w4) \<Rightarrow> ((SPFResultNONE, Some err), c, snd (request_free req w4))
                   | (Inr resp, w4) \<Rightarrow>
                       let (res, w5) = response_result L resp w4;
                           w6 = snd (response_free resp w5)
                       in ((res, None), c, snd (request_free req w6))))"

text \<open>\<open>spfError.Error\<close> (lines 159 to 161) and the message of an \<open>errors.New\<close> value.\<close>

definition Error :: "'resp foreign \<Rightarrow> go_error \<Rightarrow> string" where
  "Error L e = (case e of errors_New msg \<Rightarrow> msg | spfError code \<Rightarrow> SPF_strerror L code)"

text \<open>\<open>Result.String\<close> (lines 151 to 153) calls \<open>SPF_strresult\<close> of libspf2.\<close>

text \<open>
  Modelled from the spec: \<open>SPF_strresult\<close> is a function of libspf2 and is not in
  spf2.go. Section 6 of the specification gives the string form of each Result as the
  RFC 7208 literal of the same name; the string of the invalid Result is the one the
  comment beside \<open>SPFResultINVALID\<close> (line 20) gives.
\<close>

definition SPF_strresult :: "Result \<Rightarrow> string" where
  "SPF_strresult r =
     (case r of
        SPFResultINVALID \<Rightarrow> ''(invalid)''
      | SPFResultPASS \<Rightarrow> ''pass''
      | SPFResultFAIL \<Rightarrow> ''fail''
      | SPFResultSOFTFAIL \<Rightarrow> ''softfail''
      | SPFResultNEUTRAL \<Rightarrow> ''neutral''
      | SPFResultPERMERROR \<Rightarrow> ''permerror''
      | SPFResultTEMPERROR \<Rightarrow> ''temperror''
      | SPFResultNONE \<Rightarrow> ''none'')"

definition Result_String :: "Result \<Rightarrow> string" where
  "Result_String r = SPF_strresult r"

section \<open>The evaluation engine of the specification\<close>

text \<open>
  Modelled from the spec: the SPF evaluation that \<open>SPF_request_query_mailfrom\<close> runs is
  libspf2's and is not in spf2.go. The definitions of this section follow sections 3,
  4.1, 4.3 and 6 of the specification. The DNS resolver is a parameter, as the
  specification has it; so are the macro expander of section 4.2 and the reading of an
  IPv6 address from text. Where the specification is silent the choice made is said at
  the definition.
\<close>

subsection \<open>Data model\<close>

text \<open>Modelled from the spec: the qualifier of a mechanism, one of \<open>+\<close>, \<open>-\<close>, \<open>~\<close>, \<open>?\<close> (section 3).\<close>

datatype Qualifier = Q_plus | Q_minus | Q_tilde | Q_question

text \<open>Modelled from the spec: the kinds of mechanism (section 3).\<close>

datatype MechanismKind = K_all | K_include | K_a | K_mx | K_ptr | K_ip4 | K_ip6 | K_exists

text \<open>Modelled from the spec: the kinds of modifier (section 3).\<close>

datatype ModifierKind = K_redirect | K_exp | K_unknown

text \<open>
  Modelled from the spec: a Term is a mechanism (kind, qualifier, optional argument,
  optional pair of prefix lengths for IPv4 and IPv6) or a modifier (kind, value); a
  PolicyRecord is the terms in the order of the record (section 3).
\<close>

datatype Term =
    Mechanism MechanismKind Qualifier "string option" "(nat \<times> nat) option"
  | Modifier ModifierKind string

type_synonym PolicyRecord = "Term list"

text \<open>
  Modelled from the spec: an address of either family (section 3), kept as the number
  its bytes spell, most significant byte first.
\<close>

datatype IPAddress = IPv4 nat | IPv6 nat

text \<open>Modelled from the spec: the Request of section 3.\<close>

record Request =
  domain :: string
  clientIP :: IPAddress
  envelopeFrom :: string
  helo :: string
  depth :: nat

text \<open>
  Modelled from the spec: the EvaluationBudget of section 3, the two counters shared by
  the whole evaluation. The field \<open>lookupRefused\<close> is not in the specification: it
  records that a limit check has turned a lookup down, so that this can be stated; no
  definition reads it.
\<close>

record EvaluationBudget =
  dnsLookupsUsed :: nat
  voidLookupsUsed :: nat
  lookupRefused :: bool

text \<open>Modelled from the spec: the ways a lookup of the resolver fails (section 6).\<close>

datatype dns_error = timeout | nxdomain | servfail | dns_refused

text \<open>
  Modelled from the spec: the resolver of section 6 (\<open>lookupTXT\<close>, \<open>lookupA\<close>,
  \<open>lookupAAAA\<close>, \<open>lookupMX\<close>, \<open>lookupPTR\<close>), together with the contract of the macro
  expander of section 4.2 (\<open>expand\<close>, \<open>None\<close> for an expansion error) and the reading of
  an IPv6 address from text (\<open>None\<close> when the text is not one).
\<close>

record engine =
  lookupTXT :: "string \<Rightarrow> dns_error + string list"
  lookupA :: "string \<Rightarrow> dns_error + nat list"
  lookupAAAA :: "string \<Rightarrow> dns_error + nat list"
  lookupMX :: "string \<Rightarrow> dns_error + (nat \<times> string) list"
  lookupPTR :: "IPAddress \<Rightarrow> dns_error + string list"
  expand :: "string \<Rightarrow> Request \<Rightarrow> string option"
  ip6_of_text :: "string \<Rightarrow> nat option"

text \<open>Modelled from the spec: the default of \<open>maxDNSLookups\<close> (section 6).\<close>

definition maxDNSLookups :: nat where "maxDNSLookups = 10"

text \<open>Modelled from the spec: the default of \<open>maxVoidLookups\<close> (section 6).\<close>

definition maxVoidLookups :: nat where "maxVoidLookups = 2"

text \<open>Modelled from the spec: the default of \<open>maxPTRValidatedNames\<close> (section 6).\<close>

definition maxPTRValidatedNames :: nat where "maxPTRValidatedNames = 10"

text \<open>Modelled from the spec: the limit of the recursion depth (section 4.3).\<close>

definition maxDepth :: nat where "maxDepth = 10"

subsection \<open>Record parser\<close>

text \<open>
  Modelled from the spec: letters are compared without regard to case (section 4.1);
  \<open>to_lower\<close> maps an ASCII capital to its small letter.
\<close>

definition to_lower :: "char \<Rightarrow> char" where
  "to_lower c =
     (case map_of (zip ''ABCDEFGHIJKLMNOPQRSTUVWXYZ'' ''abcdefghijklmnopqrstuvwxyz'') c of
        Some l \<Rightarrow> l
      | None \<Rightarrow> c)"

text \<open>Modelled from the spec: the value of a decimal digit, for prefix lengths and IPv4 text.\<close>

definition digit_value :: "char \<Rightarrow> nat option" where
  "digit_value c = map_of (zip ''0123456789'' [0, 1, 2, 3, 4, 5, 6, 7, 8, 9]) c"

text \<open>Modelled from the spec: the whitespace that separates terms (section 4.1): space and tab.\<close>

definition is_space :: "char \<Rightarrow> bool" where
  "is_space c = (c = CHR '' '' \<or> c = CHR 0x09)"

text \<open>Modelled from the spec: a run of decimal digits read as a number.\<close>

fun decimal :: "nat \<Rightarrow> string \<Rightarrow> nat option" where
  "decimal acc [] = Some acc"
| "decimal acc (c # cs) =
     (case digit_value c of None \<Rightarrow> None | Some v \<Rightarrow> decimal (10 * acc + v) cs)"

text \<open>Modelled from the spec: a number of one to three decimal digits.\<close>

definition number :: "string \<Rightarrow> nat option" where
  "number s = (if s = [] \<or> 3 < length s then None else decimal 0 s)"

text \<open>Modelled from the spec: a text cut at every occurrence of a separator.\<close>

fun split_on :: "char \<Rightarrow> string \<Rightarrow> string list" where
  "split_on sep [] = [[]]"
| "split_on sep (c # cs) =
     (if c = sep then [] # split_on sep cs
      else (case split_on sep cs of [] \<Rightarrow> [[c]] | p # ps \<Rightarrow> (c # p) # ps))"

text \<open>Modelled from the spec: four numbers of at most 255 read as one IPv4 address.\<close>

fun octets :: "nat \<Rightarrow> nat option list \<Rightarrow> nat option" where
  "octets acc [] = Some acc"
| "octets acc (None # ps) = None"
| "octets acc (Some v # ps) = (if v \<le> 255 then octets (acc * 256 + v) ps else None)"

text \<open>
  Modelled from the spec: the address of an \<open>ip4\<close> mechanism, in dotted decimal
  (section 4.1, "ip4/ip6 require valid CIDR").
\<close>

definition ip4_of_text :: "string \<Rightarrow> nat option" where
  "ip4_of_text s =
     (let parts = map number (split_on CHR ''.'' s)
      in if length parts = 4 then octets 0 parts else None)"

text \<open>Modelled from the spec: "tokenize the matched record on whitespace into terms" (section 4.1).\<close>

fun tokens :: "string \<Rightarrow> string \<Rightarrow> string list" where
  "tokens cur [] = (if cur = [] then [] else [cur])"
| "tokens cur (c # cs) =
     (if is_space c then (if cur = [] then tokens [] cs else cur # tokens [] cs)
      else tokens (cur @ [c]) cs)"

text \<open>
  Modelled from the spec: a TXT answer is an SPF record when it begins with the
  case-insensitive literal \<open>v=spf1\<close>, followed by whitespace or the end of the string
  (section 4.1).
\<close>

definition is_spf1 :: "string \<Rightarrow> bool" where
  "is_spf1 s = (map to_lower (take 6 s) = ''v=spf1'' \<and> (length s = 6 \<or> is_space (s ! 6)))"

text \<open>Modelled from the spec: the leading qualifier character of a mechanism (section 4.1).\<close>

definition qualifier_of :: "char \<Rightarrow> Qualifier option" where
  "qualifier_of c =
     map_of [(CHR ''+'', Q_plus), (CHR ''-'', Q_minus), (CHR ''~'', Q_tilde), (CHR ''?'', Q_question)] c"

text \<open>Modelled from the spec: the mechanism a name stands for (sections 3 and 4.1).\<close>

definition mechanism_kind :: "string \<Rightarrow> MechanismKind option" where
  "mechanism_kind name =
     map_of [(''all'', K_all), (''include'', K_include), (''a'', K_a), (''mx'', K_mx),
             (''ptr'', K_ptr), (''ip4'', K_ip4), (''ip6'', K_ip6), (''exists'', K_exists)]
       (map to_lower name)"

text \<open>
  Modelled from the spec: the modifier a name stands for; a name that is neither
  \<open>redirect\<close> nor \<open>exp\<close> is an unrecognized modifier, kept and ignored (section 4.1).
\<close>

definition modifier_kind :: "string \<Rightarrow> ModifierKind" where
  "modifier_kind name =
     (if map to_lower name = ''redirect'' then K_redirect
      else if map to_lower name = ''exp'' then K_exp else K_unknown)"

text \<open>
  Modelled from the spec: the prefix lengths written after a mechanism (section 4.1):
  nothing, \<open>/n\<close>, \<open>//m\<close> or \<open>/n//m\<close>; the result is the length written in the first
  place and the one written after the double slash.
\<close>

definition cidr_of_text :: "string \<Rightarrow> (nat option \<times> nat option) option" where
  "cidr_of_text s =
     (let parts = split_on CHR ''/'' s
      in if s = [] then Some (None, None)
         else if length parts = 2 \<and> parts ! 0 = []
         then (case number (parts ! 1) of None \<Rightarrow> None | Some v \<Rightarrow> Some (Some v, None))
         else if length parts = 3 \<and> parts ! 0 = [] \<and> parts ! 1 = []
         then (case number (parts ! 2) of None \<Rightarrow> None | Some u \<Rightarrow> Some (None, Some u))
         else if length parts = 4 \<and> parts ! 0 = [] \<and> parts ! 2 = []
         then (case number (parts ! 1) of
                 None \<Rightarrow> None
               | Some v \<Rightarrow> (case number (parts ! 3) of None \<Rightarrow> None | Some u \<Rightarrow> Some (Some v, Some u)))
         else None)"

text \<open>
  Modelled from the spec: the prefix lengths a mechanism of each kind accepts
  (section 4.1): \<open>a\<close> and \<open>mx\<close> take either or both, at most 32 and 128; \<open>ip4\<close> and
  \<open>ip6\<close> take one, for their own family; the other kinds take none. \<open>None\<close> is a
  syntax error; a length not written is the default of section 4.3 (32 and 128).
\<close>

definition mechanism_cidr :: "MechanismKind \<Rightarrow> nat option \<times> nat option \<Rightarrow> (nat \<times> nat) option option" where
  "mechanism_cidr k raw =
     (let v4 = fst raw; v6 = snd raw
      in if k = K_a \<or> k = K_mx
         then (if v4 = None \<and> v6 = None then Some None
               else if (case v4 of None \<Rightarrow> 32 | Some v \<Rightarrow> v) \<le> 32 \<and> (case v6 of None \<Rightarrow> 128 | Some u \<Rightarrow> u) \<le> 128
               then Some (Some (case v4 of None \<Rightarrow> 32 | Some v \<Rightarrow> v, case v6 of None \<Rightarrow> 128 | Some u \<Rightarrow> u))
               else None)
         else if k = K_ip4
         then (if v6 \<noteq> None then None
               else (case v4 of None \<Rightarrow> Some None
                     | Some v \<Rightarrow> if v \<le> 32 then Some (Some (v, 128)) else None))
         else if k = K_ip6
         then (if v6 \<noteq> None then None
               else (case v4 of None \<Rightarrow> Some None
                     | Some u \<Rightarrow> if u \<le> 128 then Some (Some (32, u)) else None))
         else (if v4 = None \<and> v6 = None then Some None else None))"

text \<open>
  Modelled from the spec: the argument a mechanism of each kind accepts (section 4.1):
  \<open>all\<close> takes none, \<open>a\<close>, \<open>mx\<close> and \<open>ptr\<close> an optional domain-spec, the others need
  one, and that of \<open>ip4\<close> or \<open>ip6\<close> must be an address of the family.
\<close>

definition valid_argument :: "engine \<Rightarrow> MechanismKind \<Rightarrow> string option \<Rightarrow> bool" where
  "valid_argument R k arg =
     (case arg of
        None \<Rightarrow> k = K_all \<or> k = K_a \<or> k = K_mx \<or> k = K_ptr
      | Some a \<Rightarrow>
          a \<noteq> [] \<and> k \<noteq> K_all
          \<and> (if k = K_ip4 then ip4_of_text a \<noteq> None
              else if k = K_ip6 then ip6_of_text R a \<noteq> None else True))"

text \<open>
  Modelled from the spec: the name of a modifier: a letter, then letters, digits,
  hyphens, underscores or dots. The specification says only that a token is a
  mechanism, a modifier or unrecognized; this is the name syntax of RFC 7208.
\<close>

definition is_name :: "string \<Rightarrow> bool" where
  "is_name s =
     (case s of
        [] \<Rightarrow> False
      | c # cs \<Rightarrow> to_lower c \<in> set ''abcdefghijklmnopqrstuvwxyz''
                 \<and> list_all (\<lambda>x. to_lower x \<in> set ''abcdefghijklmnopqrstuvwxyz0123456789-_.'') cs)"

text \<open>Modelled from the spec: the characters that end the name of a term.\<close>

definition is_delimiter :: "char \<Rightarrow> bool" where
  "is_delimiter c = (c = CHR ''='' \<or> c = CHR '':'' \<or> c = CHR ''/'')"

text \<open>
  Modelled from the spec: one token read as a term (section 4.1). A name followed by
  \<open>=\<close> is a modifier; otherwise the token is a mechanism, with an optional leading
  qualifier that defaults to \<open>+\<close>, an optional argument after \<open>:\<close> and optional prefix
  lengths. \<open>None\<close> is malformed syntax.
\<close>

definition parse_term :: "engine \<Rightarrow> string \<Rightarrow> Term option" where
  "parse_term R tok =
     (let name = takeWhile (\<lambda>c. \<not> is_delimiter c) tok;
          rest = dropWhile (\<lambda>c. \<not> is_delimiter c) tok
      in if take 1 rest = ''=''
         then (let k = modifier_kind name; v = drop 1 rest
               in if is_name name \<and> (k = K_unknown \<or> v \<noteq> []) then Some (Modifier k v) else None)
         else
           (let q = (case tok of [] \<Rightarrow> None | c # cs \<Rightarrow> qualifier_of c);
                body = (if q = None then tok else drop 1 tok);
                mname = takeWhile (\<lambda>c. \<not> is_delimiter c) body;
                after = dropWhile (\<lambda>c. \<not> is_delimiter c) body;
                arg = (if take 1 after = '':'' then Some (takeWhile (\<lambda>c. c \<noteq> CHR ''/'') (drop 1 after))
                       else None);
                tail = (if take 1 after = '':'' then dropWhile (\<lambda>c. c \<noteq> CHR ''/'') (drop 1 after)
                        else after)
            in case mechanism_kind mname of
                 None \<Rightarrow> None
               | Some k \<Rightarrow>
                   (case cidr_of_text tail of
                      None \<Rightarrow> None
                    | Some raw \<Rightarrow>
                        (case mechanism_cidr k raw of
                           None \<Rightarrow> None
                         | Some cidr \<Rightarrow>
                             (if valid_argument R k arg
                              then Some (Mechanism k (case q of None \<Rightarrow> Q_plus | Some x \<Rightarrow> x) arg cidr)
                              else None)))))"

text \<open>
  Modelled from the spec: the tokens read in order; one malformed token makes the whole
  record malformed (section 4.1).
\<close>

fun parse_terms :: "engine \<Rightarrow> string list \<Rightarrow> PolicyRecord option" where
  "parse_terms R [] = Some []"
| "parse_terms R (t # ts) =
     (case parse_term R t of
        None \<Rightarrow> None
      | Some x \<Rightarrow> (case parse_terms R ts of None \<Rightarrow> None | Some xs \<Rightarrow> Some (x # xs)))"

text \<open>
  Modelled from the spec: \<open>parse\<close> of section 4.1. Exactly one answer must be an SPF
  record: none gives the result none, more than one is a permanent error, and so is
  malformed syntax anywhere in the record.
\<close>

definition parse :: "engine \<Rightarrow> string list \<Rightarrow> Result + PolicyRecord" where
  "parse R txtAnswers =
     (case filter is_spf1 txtAnswers of
        [] \<Rightarrow> Inl SPFResultNONE
      | [r] \<Rightarrow> (case parse_terms R (tokens [] (drop 6 r)) of
                  None \<Rightarrow> Inl SPFResultPERMERROR
                | Some terms \<Rightarrow> Inr terms)
      | _ \<Rightarrow> Inl SPFResultPERMERROR)"

subsection \<open>Evaluation\<close>

text \<open>
  Modelled from the spec: what an evaluation gives: the Result, the optional
  explanation and the budget as the evaluation leaves it (sections 3 and 4.3).
\<close>

type_synonym outcome = "Result \<times> string option \<times> EvaluationBudget"

text \<open>Modelled from the spec: the fresh budget of a top-level call (section 4.4).\<close>

definition fresh_budget :: EvaluationBudget where
  "fresh_budget = \<lparr>dnsLookupsUsed = 0, voidLookupsUsed = 0, lookupRefused = False\<rparr>"

text \<open>
  Modelled from the spec: one unit of the DNS-lookup budget (section 3): granted while
  fewer than \<open>maxDNSLookups\<close> are used, otherwise refused.
\<close>

definition consume_lookup :: "EvaluationBudget \<Rightarrow> EvaluationBudget option" where
  "consume_lookup b =
     (if dnsLookupsUsed b < maxDNSLookups then Some (b\<lparr>dnsLookupsUsed := dnsLookupsUsed b + 1\<rparr>)
      else None)"

text \<open>
  Modelled from the spec: one void lookup (section 3): counted while fewer than
  \<open>maxVoidLookups\<close> are used, otherwise refused.
\<close>

definition note_void :: "EvaluationBudget \<Rightarrow> EvaluationBudget option" where
  "note_void b =
     (if voidLookupsUsed b < maxVoidLookups then Some (b\<lparr>voidLookupsUsed := voidLookupsUsed b + 1\<rparr>)
      else None)"

text \<open>Modelled from the spec: the result a qualifier maps to (glossary).\<close>

definition qualifier_result :: "Qualifier \<Rightarrow> Result" where
  "qualifier_result q =
     (case q of Q_plus \<Rightarrow> SPFResultPASS | Q_minus \<Rightarrow> SPFResultFAIL
      | Q_tilde \<Rightarrow> SPFResultSOFTFAIL | Q_question \<Rightarrow> SPFResultNEUTRAL)"

text \<open>
  Modelled from the spec: an address of \<open>bits\<close> bits falls within a network when the
  two agree on the first \<open>len\<close> bits (section 4.3).
\<close>

definition cidr_covers :: "nat \<Rightarrow> nat \<Rightarrow> nat \<Rightarrow> nat \<Rightarrow> bool" where
  "cidr_covers bits len net addr = (addr div 2 ^ (bits - len) = net div 2 ^ (bits - len))"

text \<open>
  Modelled from the spec: the client address is covered by an address of the same
  family under the prefix length given for the family, by default 32 for IPv4 and 128
  for IPv6 (section 4.3).
\<close>

definition covers :: "IPAddress \<Rightarrow> (nat \<times> nat) option \<Rightarrow> IPAddress \<Rightarrow> bool" where
  "covers client cidr net =
     (case client of
        IPv4 c \<Rightarrow> (case net of IPv4 n \<Rightarrow> cidr_covers 32 (case cidr of None \<Rightarrow> 32 | Some l \<Rightarrow> fst l) n c
                             | IPv6 n \<Rightarrow> False)
      | IPv6 c \<Rightarrow> (case net of IPv4 n \<Rightarrow> False
                             | IPv6 n \<Rightarrow> cidr_covers 128 (case cidr of None \<Rightarrow> 128 | Some l \<Rightarrow> snd l) n c))"

text \<open>
  Modelled from the spec: what the test of one mechanism gives: a match, no match, or
  the end of the walk with a result (section 4.3).
\<close>

datatype verdict = Match | NoMatch | Abort Result

text \<open>
  Modelled from the spec: the domain a mechanism is about: its argument, macro-expanded,
  or the current domain when it has none (section 4.3).
\<close>

definition target_name :: "engine \<Rightarrow> Request \<Rightarrow> string option \<Rightarrow> string option" where
  "target_name R ctx arg = (case arg of None \<Rightarrow> Some (domain ctx) | Some a \<Rightarrow> expand R a ctx)"

text \<open>Modelled from the spec: the addresses of a name in the family of the client (section 4.3).\<close>

definition lookup_addresses :: "engine \<Rightarrow> IPAddress \<Rightarrow> string \<Rightarrow> dns_error + IPAddress list" where
  "lookup_addresses R client name =
     (case client of
        IPv4 c \<Rightarrow> (case lookupA R name of Inl e \<Rightarrow> Inl e | Inr xs \<Rightarrow> Inr (map IPv4 xs))
      | IPv6 c \<Rightarrow> (case lookupAAAA R name of Inl e \<Rightarrow> Inl e | Inr xs \<Rightarrow> Inr (map IPv6 xs)))"

text \<open>
  Modelled from the spec: one lookup of a mechanism that consumes budget (sections 3 and
  4.3). A unit of the DNS-lookup budget is taken first, and a refusal ends the
  evaluation with permerror; a timeout or SERVFAIL gives temperror; an answer with no
  record is a void lookup, counted against its own limit, and a refusal there ends the
  evaluation with permerror too. The specification does not place a refused query or
  NXDOMAIN inside a mechanism: a refused query is taken as transient and NXDOMAIN as an
  answer with no record.
\<close>

definition counted :: "EvaluationBudget \<Rightarrow> (dns_error + 'a list) \<Rightarrow> (Result \<times> EvaluationBudget) + ('a list \<times> EvaluationBudget)" where
  "counted b answer =
     (case consume_lookup b of
        None \<Rightarrow> Inl (SPFResultPERMERROR, b\<lparr>lookupRefused := True\<rparr>)
      | Some b1 \<Rightarrow>
          (if answer = Inl timeout \<or> answer = Inl servfail \<or> answer = Inl dns_refused
           then Inl (SPFResultTEMPERROR, b1)
           else (case answer of
                   Inr (x # xs) \<Rightarrow> Inr (x # xs, b1)
                 | _ \<Rightarrow> (case note_void b1 of
                           None \<Rightarrow> Inl (SPFResultPERMERROR, b1\<lparr>lookupRefused := True\<rparr>)
                         | Some b2 \<Rightarrow> Inr ([], b2)))))"

text \<open>
  Modelled from the spec: the mechanism \<open>a\<close> (section 4.3): one counted lookup of the
  addresses of the target; it matches when one of them covers the client address.
\<close>

definition mech_a :: "engine \<Rightarrow> Request \<Rightarrow> EvaluationBudget \<Rightarrow> string option \<Rightarrow> (nat \<times> nat) option \<Rightarrow> verdict \<times> EvaluationBudget" where
  "mech_a R ctx b arg cidr =
     (case target_name R ctx arg of
        None \<Rightarrow> (Abort SPFResultPERMERROR, b)
      | Some name \<Rightarrow>
          (case counted b (lookup_addresses R (clientIP ctx) name) of
             Inl (r, b') \<Rightarrow> (Abort r, b')
           | Inr (addrs, b') \<Rightarrow>
               (if list_ex (covers (clientIP ctx) cidr) addrs then (Match, b') else (NoMatch, b'))))"

text \<open>
  Modelled from the spec: the exchanges of an \<open>mx\<close> mechanism (section 4.3): each costs a
  further unit of the budget and is checked for a void answer on its own.
\<close>

fun mx_exchanges :: "engine \<Rightarrow> Request \<Rightarrow> (nat \<times> nat) option \<Rightarrow> EvaluationBudget \<Rightarrow> (nat \<times> string) list \<Rightarrow> verdict \<times> EvaluationBudget" where
  "mx_exchanges R ctx cidr b [] = (NoMatch, b)"
| "mx_exchanges R ctx cidr b (x # xs) =
     (case counted b (lookup_addresses R (clientIP ctx) (snd x)) of
        Inl (r, b') \<Rightarrow> (Abort r, b')
      | Inr (addrs, b') \<Rightarrow>
          (if list_ex (covers (clientIP ctx) cidr) addrs then (Match, b')
           else mx_exchanges R ctx cidr b' xs))"

text \<open>
  Modelled from the spec: the mechanism \<open>mx\<close> (section 4.3): one counted lookup of the
  exchanges of the target, then the exchanges in the order of the answer.
\<close>

definition mech_mx :: "engine \<Rightarrow> Request \<Rightarrow> EvaluationBudget \<Rightarrow> string option \<Rightarrow> (nat \<times> nat) option \<Rightarrow> verdict \<times> EvaluationBudget" where
  "mech_mx R ctx b arg cidr =
     (case target_name R ctx arg of
        None \<Rightarrow> (Abort SPFResultPERMERROR, b)
      | Some name \<Rightarrow>
          (case counted b (lookupMX R name) of
             Inl (r, b') \<Rightarrow> (Abort r, b')
           | Inr (exchanges, b') \<Rightarrow> mx_exchanges R ctx cidr b' exchanges))"

text \<open>
  Modelled from the spec: a name "equals or is a subdomain of" a domain (section 4.3),
  letters compared without regard to case.
\<close>

definition same_or_subdomain :: "string \<Rightarrow> string \<Rightarrow> bool" where
  "same_or_subdomain name zone =
     (let n = map to_lower name; d = map to_lower zone
      in n = d \<or> (length d < length n \<and> drop (length n - length d - 1) n = CHR ''.'' # d))"

text \<open>
  Modelled from the spec: a name found by the reverse lookup is validated when its
  forward lookup gives the client address back (section 4.3). The specification counts
  one unit for \<open>ptr\<close>; the forward lookups are not counted.
\<close>

definition validated :: "engine \<Rightarrow> IPAddress \<Rightarrow> string \<Rightarrow> bool" where
  "validated R client name =
     (case lookup_addresses R client name of Inl e \<Rightarrow> False | Inr addrs \<Rightarrow> client \<in> set addrs)"

text \<open>
  Modelled from the spec: the mechanism \<open>ptr\<close> (section 4.3): one counted reverse lookup;
  it matches when one of the first \<open>maxPTRValidatedNames\<close> validated names equals or is
  a subdomain of the target.
\<close>

definition mech_ptr :: "engine \<Rightarrow> Request \<Rightarrow> EvaluationBudget \<Rightarrow> string option \<Rightarrow> verdict \<times> EvaluationBudget" where
  "mech_ptr R ctx b arg =
     (case target_name R ctx arg of
        None \<Rightarrow> (Abort SPFResultPERMERROR, b)
      | Some zone \<Rightarrow>
          (case counted b (lookupPTR R (clientIP ctx)) of
             Inl (r, b') \<Rightarrow> (Abort r, b')
           | Inr (names, b') \<Rightarrow>
               (if list_ex (\<lambda>n. same_or_subdomain n zone)
                     (take maxPTRValidatedNames (filter (validated R (clientIP ctx)) names))
                then (Match, b') else (NoMatch, b'))))"

text \<open>
  Modelled from the spec: the mechanism \<open>exists\<close> (section 4.3): one counted lookup; it
  matches when an A record exists, whatever it holds.
\<close>

definition mech_exists :: "engine \<Rightarrow> Request \<Rightarrow> EvaluationBudget \<Rightarrow> string option \<Rightarrow> verdict \<times> EvaluationBudget" where
  "mech_exists R ctx b arg =
     (case target_name R ctx arg of
        None \<Rightarrow> (Abort SPFResultPERMERROR, b)
      | Some name \<Rightarrow>
          (case counted b (lookupA R name) of
             Inl (r, b') \<Rightarrow> (Abort r, b')
           | Inr (addrs, b') \<Rightarrow> (if addrs \<noteq> [] then (Match, b') else (NoMatch, b'))))"

text \<open>
  Modelled from the spec: the mechanisms \<open>ip4\<close> and \<open>ip6\<close> (section 4.3): no DNS cost;
  they match when the client address, of the same family, falls within the network.
\<close>

definition mech_ip :: "engine \<Rightarrow> Request \<Rightarrow> MechanismKind \<Rightarrow> string option \<Rightarrow> (nat \<times> nat) option \<Rightarrow> verdict" where
  "mech_ip R ctx k arg cidr =
     (case arg of
        None \<Rightarrow> Abort SPFResultPERMERROR
      | Some a \<Rightarrow>
          (case (if k = K_ip4 then map_option IPv4 (ip4_of_text a) else map_option IPv6 (ip6_of_text R a)) of
             None \<Rightarrow> Abort SPFResultPERMERROR
           | Some net \<Rightarrow> (if covers (clientIP ctx) cidr net then Match else NoMatch)))"

text \<open>
  Modelled from the spec: the mechanism \<open>include\<close> (section 4.3): the argument is
  expanded, one unit of the budget is taken, and the included domain is evaluated one
  level deeper on the same budget (\<open>ev\<close> is the evaluation at that depth). An inner
  none or permerror is a permerror of the including record; an inner pass, fail,
  softfail or neutral is a match. The specification does not name the inner temperror:
  it ends the walk as it is.
\<close>

definition mech_include :: "(string \<Rightarrow> Request \<Rightarrow> EvaluationBudget \<Rightarrow> outcome) \<Rightarrow> engine \<Rightarrow> Request \<Rightarrow> EvaluationBudget \<Rightarrow> string option \<Rightarrow> verdict \<times> EvaluationBudget" where
  "mech_include ev R ctx b arg =
     (case target_name R ctx arg of
        None \<Rightarrow> (Abort SPFResultPERMERROR, b)
      | Some name \<Rightarrow>
          (case consume_lookup b of
             None \<Rightarrow> (Abort SPFResultPERMERROR, b\<lparr>lookupRefused := True\<rparr>)
           | Some b1 \<Rightarrow>
               (let inner = ev name (ctx\<lparr>depth := depth ctx + 1\<rparr>) b1;
                    r = fst inner; b2 = snd (snd inner)
                in if r = SPFResultNONE \<or> r = SPFResultPERMERROR then (Abort SPFResultPERMERROR, b2)
                   else if r = SPFResultPASS \<or> r = SPFResultFAIL \<or> r = SPFResultSOFTFAIL
                           \<or> r = SPFResultNEUTRAL
                   then (Match, b2)
                   else (Abort r, b2))))"

text \<open>Modelled from the spec: the test of a mechanism, by its kind (section 4.3).\<close>

definition mechanism :: "(string \<Rightarrow> Request \<Rightarrow> EvaluationBudget \<Rightarrow> outcome) \<Rightarrow> engine \<Rightarrow> Request \<Rightarrow> EvaluationBudget \<Rightarrow> MechanismKind \<Rightarrow> string option \<Rightarrow> (nat \<times> nat) option \<Rightarrow> verdict \<times> EvaluationBudget" where
  "mechanism ev R ctx b k arg cidr =
     (case k of
        K_all \<Rightarrow> (Match, b)
      | K_include \<Rightarrow> mech_include ev R ctx b arg
      | K_a \<Rightarrow> mech_a R ctx b arg cidr
      | K_mx \<Rightarrow> mech_mx R ctx b arg cidr
      | K_ptr \<Rightarrow> mech_ptr R ctx b arg
      | K_ip4 \<Rightarrow> (mech_ip R ctx k arg cidr, b)
      | K_ip6 \<Rightarrow> (mech_ip R ctx k arg cidr, b)
      | K_exists \<Rightarrow> mech_exists R ctx b arg)"

text \<open>Modelled from the spec: the value of the first modifier of a kind in a record.\<close>

fun modifier_value :: "ModifierKind \<Rightarrow> PolicyRecord \<Rightarrow> string option" where
  "modifier_value k [] = None"
| "modifier_value k (Mechanism mk q arg cidr # ts) = modifier_value k ts"
| "modifier_value k (Modifier mk v # ts) = (if mk = k then Some v else modifier_value k ts)"

text \<open>
  Modelled from the spec: the modifier \<open>exp\<close> (section 4.3): its domain-spec is expanded,
  its TXT record fetched, and the first line is the explanation; a failure on the way
  leaves the explanation out.
\<close>

definition explanation :: "engine \<Rightarrow> Request \<Rightarrow> PolicyRecord \<Rightarrow> string option" where
  "explanation R ctx terms =
     (case modifier_value K_exp terms of
        None \<Rightarrow> None
      | Some v \<Rightarrow>
          (case expand R v ctx of
             None \<Rightarrow> None
           | Some name \<Rightarrow> (case lookupTXT R name of Inr (line # others) \<Rightarrow> Some line | _ \<Rightarrow> None)))"

text \<open>
  Modelled from the spec: the end of a walk in which no mechanism matched (section 4.3):
  with a \<open>redirect\<close> modifier, one unit of the budget is taken and the result of the
  target, evaluated one level deeper, is the result of the record; without one the
  result is neutral.
\<close>

definition redirect :: "(string \<Rightarrow> Request \<Rightarrow> EvaluationBudget \<Rightarrow> outcome) \<Rightarrow> engine \<Rightarrow> Request \<Rightarrow> EvaluationBudget \<Rightarrow> PolicyRecord \<Rightarrow> outcome" where
  "redirect ev R ctx b terms =
     (case modifier_value K_redirect terms of
        None \<Rightarrow> (SPFResultNEUTRAL, None, b)
      | Some v \<Rightarrow>
          (case expand R v ctx of
             None \<Rightarrow> (SPFResultPERMERROR, None, b)
           | Some name \<Rightarrow>
               (case consume_lookup b of
                  None \<Rightarrow> (SPFResultPERMERROR, None, b\<lparr>lookupRefused := True\<rparr>)
                | Some b1 \<Rightarrow> ev name (ctx\<lparr>depth := depth ctx + 1\<rparr>) b1)))"

text \<open>
  Modelled from the spec: the walk over the terms of a record, in order (section 4.3).
  The first mechanism that matches gives the result its qualifier maps to, with the
  explanation when that result is fail; a modifier is passed over; a refused lookup or
  an error ends the walk.
\<close>

fun walk :: "(string \<Rightarrow> Request \<Rightarrow> EvaluationBudget \<Rightarrow> outcome) \<Rightarrow> engine \<Rightarrow> Request \<Rightarrow> PolicyRecord \<Rightarrow> EvaluationBudget \<Rightarrow> Term list \<Rightarrow> outcome" where
  "walk ev R ctx terms b [] = redirect ev R ctx b terms"
| "walk ev R ctx terms b (Modifier k v # ts) = walk ev R ctx terms b ts"
| "walk ev R ctx terms b (Mechanism k q arg cidr # ts) =
     (case mechanism ev R ctx b k arg cidr of
        (Match, b') \<Rightarrow>
          (qualifier_result q, (if q = Q_minus then explanation R ctx terms else None), b')
      | (NoMatch, b') \<Rightarrow> walk ev R ctx terms b' ts
      | (Abort r, b') \<Rightarrow> (r, None, b'))"

text \<open>
  Modelled from the spec: the evaluation of a domain with \<open>n\<close> levels of recursion left
  (section 4.3): the TXT answers are fetched (a timeout or SERVFAIL gives temperror,
  NXDOMAIN none; a refused query, which the specification does not place, is taken as
  transient), parsed, and the terms walked. With no level left the result is permerror.
\<close>

primrec eval_depth :: "nat \<Rightarrow> engine \<Rightarrow> string \<Rightarrow> Request \<Rightarrow> EvaluationBudget \<Rightarrow> outcome" where
  "eval_depth 0 = (\<lambda>R d ctx b. (SPFResultPERMERROR, None, b))"
| "eval_depth (Suc n) = (\<lambda>R d ctx b.
     (case lookupTXT R d of
        Inl e \<Rightarrow> (if e = nxdomain then (SPFResultNONE, None, b) else (SPFResultTEMPERROR, None, b))
      | Inr answers \<Rightarrow>
          (case parse R answers of
             Inl r \<Rightarrow> (r, None, b)
           | Inr terms \<Rightarrow> walk (eval_depth n R) R (ctx\<lparr>domain := d\<rparr>) terms b terms)))"

text \<open>
  Modelled from the spec: \<open>evaluate\<close> of section 4.3. A request at depth \<open>depth ctx\<close> has
  \<open>maxDepth + 1 - depth ctx\<close> levels left, so the result is permerror exactly when the
  depth exceeds \<open>maxDepth\<close>.
\<close>

definition evaluate :: "engine \<Rightarrow> string \<Rightarrow> Request \<Rightarrow> EvaluationBudget \<Rightarrow> outcome" where
  "evaluate R d ctx b = eval_depth (Suc maxDepth - depth ctx) R d ctx b"

text \<open>
  Modelled from the spec: the domain of an envelope sender (section 6, "envelope-from
  address or domain"): what follows the last \<open>@\<close>, or the whole text.
\<close>

definition sender_domain :: "string \<Rightarrow> string" where
  "sender_domain sender =
     (if CHR ''@'' \<in> set sender then rev (takeWhile (\<lambda>c. c \<noteq> CHR ''@'') (rev sender)) else sender)"

text \<open>
  Modelled from the spec: the initial Request of a top-level call (section 4.4), at
  depth 0; \<open>Query\<close> is given no HELO name.
\<close>

definition initial_request :: "string \<Rightarrow> IPAddress \<Rightarrow> Request" where
  "initial_request sender a =
     \<lparr>domain = sender_domain sender, clientIP = a, envelopeFrom = sender, helo = [], depth = 0\<rparr>"

section \<open>Notions the properties are stated with\<close>

text \<open>The status \<open>setIpAddr\<close> gets from the library, and the call it makes.\<close>

definition ip_status :: "'resp foreign \<Rightarrow> IP \<Rightarrow> SPF_errcode_t" where
  "ip_status L ip =
     (if To4 ip \<noteq> None then SPF_request_set_ipv4_str L (IP_String L ip)
      else SPF_request_set_ipv6_str L (IP_String L ip))"

definition ip_call :: "'resp foreign \<Rightarrow> handle \<Rightarrow> IP \<Rightarrow> ccall" where
  "ip_call L h ip =
     (if To4 ip \<noteq> None then C_SPF_request_set_ipv4_str (Some h) (IP_String L ip)
      else C_SPF_request_set_ipv6_str (Some h) (IP_String L ip))"

text \<open>The request \<open>Query\<close> has built when it calls \<open>SPF_request_query_mailfrom\<close>.\<close>

definition mailfrom_request :: "'resp foreign \<Rightarrow> string \<Rightarrow> IP \<Rightarrow> SPF_request_t" where
  "mailfrom_request L host ip =
     \<lparr>env_from = Some host,
      ipv4 = (if To4 ip \<noteq> None then Some (IP_String L ip) else None),
      ipv6 = (if To4 ip \<noteq> None then None else Some (IP_String L ip))\<rparr>"

text \<open>The status and the response of the evaluation \<open>Query\<close> asks for.\<close>

definition eval_status :: "'resp foreign \<Rightarrow> string \<Rightarrow> IP \<Rightarrow> SPF_errcode_t" where
  "eval_status L host ip = fst (SPF_request_query_mailfrom L (Some (mailfrom_request L host ip)))"

definition eval_response :: "'resp foreign \<Rightarrow> string \<Rightarrow> IP \<Rightarrow> 'resp option" where
  "eval_response L host ip = snd (SPF_request_query_mailfrom L (Some (mailfrom_request L host ip)))"


fun frees_server :: "ccall \<Rightarrow> bool" where
  "frees_server (C_SPF_server_free h) = True"
| "frees_server _ = False"

fun creates_request :: "ccall \<Rightarrow> bool" where
  "creates_request (C_SPF_request_new s h) = True"
| "creates_request _ = False"

text \<open>The calls made between two states of the C side.\<close>

definition calls_since :: "'resp cworld \<Rightarrow> 'resp cworld \<Rightarrow> ccall list" where
  "calls_since w w' = drop (length (calls w)) (calls w')"

fun frees_request :: "ccall \<Rightarrow> bool" where
  "frees_request (C_SPF_request_free h) = True"
| "frees_request _ = False"

text \<open>\<open>Close\<close> called \<open>n\<close> times in a row.\<close>

fun Close_times :: "nat \<Rightarrow> clientImpl \<Rightarrow> 'resp cworld \<Rightarrow> clientImpl \<times> 'resp cworld" where
  "Close_times 0 c w = (c, w)"
| "Close_times (Suc n) c w = Close_times n (fst (Close c w)) (snd (Close c w))"







text \<open>The address a \<open>net.IP\<close> holds, as the engine has addresses.\<close>

definition byte_value :: "IP \<Rightarrow> nat" where
  "byte_value p = foldl (\<lambda>acc x. acc * 256 + unat x) 0 p"

definition address_of :: "IP \<Rightarrow> IPAddress option" where
  "address_of ip =
     (case To4 ip of
        Some p \<Rightarrow> Some (IPv4 (byte_value p))
      | None \<Rightarrow> (if length ip = 16 then Some (IPv6 (byte_value ip)) else None))"

text \<open>
  The library answers the evaluation of this sender and address as the engine of the
  specification does over the resolver \<open>R\<close>: it accepts both, reports \<open>SPF_E_SUCCESS\<close>,
  and the Result of its response is the engine's for the sender's domain, the address
  and a fresh budget.
\<close>

definition engine_backed :: "'resp foreign \<Rightarrow> engine \<Rightarrow> string \<Rightarrow> IP \<Rightarrow> bool" where
  "engine_backed L R host ip =
     (SPF_request_set_env_from L host = SPF_E_SUCCESS
      \<and> ip_status L ip = SPF_E_SUCCESS
      \<and> eval_status L host ip = SPF_E_SUCCESS
      \<and> (case address_of ip of
            None \<Rightarrow> False
          | Some a \<Rightarrow>
              SPF_response_result L (eval_response L host ip) =
                fst (evaluate R (sender_domain host) (initial_request host a) fresh_budget)))"

text \<open>
  A stand-in library for the examples. A response is a result code and an explanation
  text. It accepts every envelope sender but the empty one and the one address
  192.0.2.1, and answers every evaluation with \<open>answer\<close>.
\<close>

definition stub :: "SPF_errcode_t \<times> (Result \<times> string) option \<Rightarrow> (Result \<times> string) foreign" where
  "stub answer =
     \<lparr>SPF_request_set_env_from = (\<lambda>s. if s = [] then SPF_E_OTHER 1 else SPF_E_SUCCESS),
      SPF_request_set_ipv4_str = (\<lambda>s. if s = ''192.0.2.1'' then SPF_E_SUCCESS else SPF_E_OTHER 2),
      SPF_request_set_ipv6_str = (\<lambda>s. SPF_E_OTHER 3),
      SPF_request_query_mailfrom = (\<lambda>q. answer),
      SPF_response_result = (\<lambda>p. case p of None \<Rightarrow> SPFResultINVALID | Some v \<Rightarrow> fst v),
      SPF_strerror = (\<lambda>e. if e = SPF_E_SUCCESS then ''No errors'' else ''error''),
      IP_String = (\<lambda>ip. if ip = [192, 0, 2, 1] then ''192.0.2.1'' else ''?'')\<rparr>"

definition world0 :: "(Result \<times> string) cworld" where
  "world0 = \<lparr>servers = [], requests = [], responses = [], calls = []\<rparr>"

text \<open>
  A library for the examples that runs the engine of the specification over a resolver
  and reports every result with \<open>SPF_E_SUCCESS\<close>.
\<close>

definition engine_library :: "engine \<Rightarrow> (Result \<times> string) foreign" where
  "engine_library R =
     \<lparr>SPF_request_set_env_from = (\<lambda>s. SPF_E_SUCCESS),
      SPF_request_set_ipv4_str = (\<lambda>s. if ip4_of_text s = None then SPF_E_OTHER 1 else SPF_E_SUCCESS),
      SPF_request_set_ipv6_str = (\<lambda>s. if ip6_of_text R s = None then SPF_E_OTHER 2 else SPF_E_SUCCESS),
      SPF_request_query_mailfrom = (\<lambda>q.
        case q of
          None \<Rightarrow> (SPF_E_OTHER 3, None)
        | Some rq \<Rightarrow>
            (case env_from rq of
               None \<Rightarrow> (SPF_E_OTHER 3, None)
             | Some sender \<Rightarrow>
                 (case (case ipv4 rq of
                          Some s \<Rightarrow> map_option IPv4 (ip4_of_text s)
                        | None \<Rightarrow> (case ipv6 rq of
                                     Some s \<Rightarrow> map_option IPv6 (ip6_of_text R s)
                                   | None \<Rightarrow> None)) of
                    None \<Rightarrow> (SPF_E_OTHER 3, None)
                  | Some a \<Rightarrow>
                      (SPF_E_SUCCESS,
                       Some (fst (evaluate R (sender_domain sender) (initial_request sender a) fresh_budget),
                             (case fst (snd (evaluate R (sender_domain sender) (initial_request sender a)
                                               fresh_budget)) of
                                None \<Rightarrow> [] | Some text \<Rightarrow> text)))))),
      SPF_response_result = (\<lambda>p. case p of None \<Rightarrow> SPFResultINVALID | Some v \<Rightarrow> fst v),
      SPF_strerror = (\<lambda>e. if e = SPF_E_SUCCESS then ''No errors'' else ''error''),
      IP_String = (\<lambda>ip. if ip = [192, 0, 2, 1] then ''192.0.2.1''
                         else if ip = [192, 0, 2, 2] then ''192.0.2.2'' else ''?'')\<rparr>"

text \<open>A resolver that knows the one record \<open>v=spf1 ip4:192.0.2.1/32 -all\<close> of example.org.\<close>

definition example_engine :: engine where
  "example_engine =
     \<lparr>lookupTXT = (\<lambda>d. if d = ''example.org'' then Inr [''v=spf1 ip4:192.0.2.1/32 -all'']
                        else Inl nxdomain),
      lookupA = (\<lambda>d. Inl nxdomain),
      lookupAAAA = (\<lambda>d. Inl nxdomain),
      lookupMX = (\<lambda>d. Inl nxdomain),
      lookupPTR = (\<lambda>a. Inl nxdomain),
      expand = (\<lambda>t ctx. Some t),
      ip6_of_text = (\<lambda>s. None)\<rparr>"





text \<open>
  Modelled from the spec: a void lookup (section 3 and the glossary): an answer with no
  record; NXDOMAIN inside a mechanism is taken as one, as \<open>counted\<close> has it.
\<close>

definition void_answer :: "(dns_error + 'a list) \<Rightarrow> bool" where
  "void_answer answer = (answer = Inr [] \<or> answer = Inl nxdomain)"

text \<open>
  Modelled from the spec: the lookup a mechanism of kind \<open>k\<close> makes first for the target
  \<open>name\<close> (section 4.3) has a void answer.
\<close>

definition first_lookup_void :: "engine \<Rightarrow> Request \<Rightarrow> MechanismKind \<Rightarrow> string \<Rightarrow> bool" where
  "first_lookup_void R ctx k name =
     (case k of
        K_a \<Rightarrow> void_answer (lookup_addresses R (clientIP ctx) name)
      | K_mx \<Rightarrow> void_answer (lookupMX R name)
      | K_ptr \<Rightarrow> void_answer (lookupPTR R (clientIP ctx))
      | K_exists \<Rightarrow> void_answer (lookupA R name)
      | _ \<Rightarrow> False)"

section \<open>Properties\<close>

subsection \<open>Handles and the store\<close>

lemma foldr_max_Max: "foldr max xs (0::nat) = Max (insert 0 (set xs))"
proof (induction xs)
  case Nil
  show ?case by simp
next
  case (Cons x xs)
  have "Max (insert x (insert 0 (set xs))) = max x (Max (insert 0 (set xs)))"
    by (rule Max_insert) simp_all
  with Cons show ?case by (simp add: insert_commute)
qed

lemma fresh_handle_Max: "fresh_handle w = Suc (Max (insert 0 (set (live w))))"
  by (simp add: fresh_handle_def foldr_max_Max)

lemma fresh_handle_notin: "fresh_handle w \<notin> set (live w)"
proof
  assume "fresh_handle w \<in> set (live w)"
  then have "fresh_handle w \<le> Max (insert 0 (set (live w)))" by simp
  then show False by (simp add: fresh_handle_Max)
qed

lemma fresh_handle_next:
  assumes "set (live w') = insert (fresh_handle w) (set (live w))"
  shows "fresh_handle w' = Suc (fresh_handle w)"
proof -
  have "Max (insert (fresh_handle w) (insert 0 (set (live w)))) =
        max (fresh_handle w) (Max (insert 0 (set (live w))))"
    by (rule Max_insert) simp_all
  then show ?thesis
    using assms by (simp add: fresh_handle_Max insert_commute)
qed

lemma fresh_not_request: "fresh_handle w \<notin> fst ` set (requests w)"
  using fresh_handle_notin [of w] by (auto simp: live_def)

lemma fresh_not_response: "fresh_handle w \<notin> fst ` set (responses w)"
  using fresh_handle_notin [of w] by (auto simp: live_def)

lemma Suc_fresh_not_response: "Suc (fresh_handle w) \<notin> fst ` set (responses w)"
proof
  assume "Suc (fresh_handle w) \<in> fst ` set (responses w)"
  then have "Suc (fresh_handle w) \<in> set (live w)" by (auto simp: live_def)
  then have "Suc (fresh_handle w) \<le> Max (insert 0 (set (live w)))" by simp
  then show False by (simp add: fresh_handle_Max)
qed

lemma store_del_fresh: "h \<notin> fst ` set st \<Longrightarrow> store_del h st = st"
  by (induction st) (auto simp: store_del_def)

lemma store_upd_fresh: "h \<notin> fst ` set st \<Longrightarrow> store_upd (Some h) f st = st"
  by (induction st) (auto simp: store_upd_def)

lemma store_del_head: "h \<notin> fst ` set st \<Longrightarrow> store_del h ((h, q) # st) = st"
  using store_del_fresh [of h st] by (simp add: store_del_def)

lemma store_upd_head: "h \<notin> fst ` set st \<Longrightarrow> store_upd (Some h) f ((h, q) # st) = (h, f q) # st"
  using store_upd_fresh [of h st f] by (simp add: store_upd_def)

lemma store_get_head: "store_get (Some h) ((h, q) # st) = Some q"
  by (simp add: store_get_def)

lemma fresh_after_newRequest:
  "fresh_handle (w\<lparr>requests := (fresh_handle w, q) # requests w, calls := cs\<rparr>) = Suc (fresh_handle w)"
  by (rule fresh_handle_next) (auto simp: live_def)

lemmas store_simps = store_del_head store_upd_head store_get_head fresh_not_request
  fresh_not_response fresh_after_newRequest

subsection \<open>One call of Query, step by step\<close>

lemma setEnvFrom_new:
  "setEnvFrom L \<lparr>request_s = c, request_r = Some (fresh_handle w)\<rparr> host
     (w\<lparr>requests := (fresh_handle w, q) # requests w, calls := cs\<rparr>) =
   (if SPF_request_set_env_from L host \<noteq> SPF_E_SUCCESS
    then (Some (spfError (SPF_request_set_env_from L host)),
          w\<lparr>requests := (fresh_handle w, q) # requests w,
            calls := cs @ [C_SPF_request_set_env_from (Some (fresh_handle w)) host]\<rparr>)
    else (None,
          w\<lparr>requests := (fresh_handle w, q\<lparr>env_from := Some host\<rparr>) # requests w,
            calls := cs @ [C_SPF_request_set_env_from (Some (fresh_handle w)) host]\<rparr>))"
  by (simp add: setEnvFrom_def Let_def store_simps)

lemma setIpAddr_new:
  "setIpAddr L \<lparr>request_s = c, request_r = Some (fresh_handle w)\<rparr> ip
     (w\<lparr>requests := (fresh_handle w, q) # requests w, calls := cs\<rparr>) =
   (if ip_status L ip \<noteq> SPF_E_SUCCESS
    then (Some (spfError (ip_status L ip)),
          w\<lparr>requests := (fresh_handle w, q) # requests w,
            calls := cs @ [ip_call L (fresh_handle w) ip]\<rparr>)
    else (None,
          w\<lparr>requests :=
              (fresh_handle w,
               q\<lparr>ipv4 := (if To4 ip \<noteq> None then Some (IP_String L ip) else ipv4 q),
                 ipv6 := (if To4 ip \<noteq> None then ipv6 q else Some (IP_String L ip))\<rparr>) # requests w,
            calls := cs @ [ip_call L (fresh_handle w) ip]\<rparr>))"
  by (simp add: setIpAddr_def Let_def store_simps ip_status_def ip_call_def)

lemma setIpAddr_env:
  "setIpAddr L \<lparr>request_s = c, request_r = Some (fresh_handle w)\<rparr> ip
     (w\<lparr>requests := (fresh_handle w, SPF_request_empty\<lparr>env_from := Some host\<rparr>) # requests w,
        calls := cs\<rparr>) =
   (if ip_status L ip \<noteq> SPF_E_SUCCESS
    then (Some (spfError (ip_status L ip)),
          w\<lparr>requests := (fresh_handle w, SPF_request_empty\<lparr>env_from := Some host\<rparr>) # requests w,
            calls := cs @ [ip_call L (fresh_handle w) ip]\<rparr>)
    else (None,
          w\<lparr>requests := (fresh_handle w, mailfrom_request L host ip) # requests w,
            calls := cs @ [ip_call L (fresh_handle w) ip]\<rparr>))"
  by (simp add: setIpAddr_new mailfrom_request_def SPF_request_empty_def)

lemma request_free_new:
  "request_free \<lparr>request_s = c, request_r = Some (fresh_handle w)\<rparr>
     (w\<lparr>requests := (fresh_handle w, q) # requests w, calls := cs\<rparr>) =
   (\<lparr>request_s = c, request_r = None\<rparr>, w\<lparr>calls := cs @ [C_SPF_request_free (fresh_handle w)]\<rparr>)"
  by (simp add: request_free_def store_simps)

lemma request_free_new':
  "request_free \<lparr>request_s = c, request_r = Some (fresh_handle w)\<rparr>
     (w\<lparr>requests := (fresh_handle w, q) # requests w, responses := rs, calls := cs\<rparr>) =
   (\<lparr>request_s = c, request_r = None\<rparr>,
    w\<lparr>responses := rs, calls := cs @ [C_SPF_request_free (fresh_handle w)]\<rparr>)"
  by (simp add: request_free_def store_simps)

lemma request_query_new:
  "request_query L \<lparr>request_s = c, request_r = Some (fresh_handle w)\<rparr>
     (w\<lparr>requests := (fresh_handle w, q) # requests w, calls := cs\<rparr>) =
   (let stat = fst (SPF_request_query_mailfrom L (Some q));
        out = snd (SPF_request_query_mailfrom L (Some q));
        w' = w\<lparr>requests := (fresh_handle w, q) # requests w,
               responses := (case out of None \<Rightarrow> responses w
                             | Some v \<Rightarrow> (Suc (fresh_handle w), v) # responses w),
               calls := cs @ [C_SPF_request_query_mailfrom (Some (fresh_handle w))]\<rparr>
    in if stat \<noteq> SPF_E_SUCCESS then (Inl (spfError stat), w')
       else (Inr \<lparr>response_r = (case out of None \<Rightarrow> None | Some v \<Rightarrow> Some (Suc (fresh_handle w)))\<rparr>, w'))"
  by (simp add: request_query_def Let_def store_simps case_prod_beta split: option.split)

lemma response_result_new:
  "response_result L \<lparr>response_r = (case out of None \<Rightarrow> None | Some v \<Rightarrow> Some h)\<rparr>
     (w\<lparr>requests := rq,
        responses := (case out of None \<Rightarrow> responses w | Some v \<Rightarrow> (h, v) # responses w),
        calls := cs\<rparr>) =
   (SPF_response_result L out,
    w\<lparr>requests := rq,
      responses := (case out of None \<Rightarrow> responses w | Some v \<Rightarrow> (h, v) # responses w),
      calls := cs @ [C_SPF_response_result (case out of None \<Rightarrow> None | Some v \<Rightarrow> Some h)]\<rparr>)"
  by (simp add: response_result_def store_get_def split: option.split)

lemma response_free_new:
  "h \<notin> fst ` set (responses w) \<Longrightarrow>
   response_free \<lparr>response_r = (case out of None \<Rightarrow> None | Some v \<Rightarrow> Some h)\<rparr>
     (w\<lparr>requests := rq,
        responses := (case out of None \<Rightarrow> responses w | Some v \<Rightarrow> (h, v) # responses w),
        calls := cs\<rparr>) =
   (\<lparr>response_r = None\<rparr>,
    w\<lparr>requests := rq,
      calls := cs @ (case out of None \<Rightarrow> [] | Some v \<Rightarrow> [C_SPF_response_free h])\<rparr>)"
  by (simp add: response_free_def store_simps split: option.split)

text \<open>The calls of one Query on an open client, by how far it gets.\<close>

lemma Query_open:
  assumes "clientImpl_s c \<noteq> None"
  shows "Query L c host ip w =
    (let h = fresh_handle w;
         new = C_SPF_request_new (clientImpl_s c) h;
         env = C_SPF_request_set_env_from (Some h) host;
         qry = C_SPF_request_query_mailfrom (Some h);
         stat = eval_status L host ip;
         out = eval_response L host ip
     in if SPF_request_set_env_from L host \<noteq> SPF_E_SUCCESS
        then ((SPFResultINVALID, Some (spfError (SPF_request_set_env_from L host))), c,
              w\<lparr>calls := calls w @ [new, env, C_SPF_request_free h]\<rparr>)
        else if ip_status L ip \<noteq> SPF_E_SUCCESS
        then ((SPFResultINVALID, Some (spfError (ip_status L ip))), c,
              w\<lparr>calls := calls w @ [new, env, ip_call L h ip, C_SPF_request_free h]\<rparr>)
        else if stat \<noteq> SPF_E_SUCCESS
        then ((SPFResultNONE, Some (spfError stat)), c,
              w\<lparr>responses := (case out of None \<Rightarrow> responses w
                               | Some v \<Rightarrow> (Suc h, v) # responses w),
                calls := calls w @ [new, env, ip_call L h ip, qry, C_SPF_request_free h]\<rparr>)
        else ((SPF_response_result L out, None), c,
              w\<lparr>calls := calls w @ [new, env, ip_call L h ip, qry] @
                  (case out of None \<Rightarrow> [C_SPF_response_result None]
                   | Some v \<Rightarrow> [C_SPF_response_result (Some (Suc h)), C_SPF_response_free (Suc h)]) @
                  [C_SPF_request_free h]\<rparr>))"
proof -
  let ?h = "fresh_handle w"
  let ?req = "\<lparr>request_s = c, request_r = Some ?h\<rparr>"
  have start: "newRequest c w =
      (?req, w\<lparr>requests := (?h, SPF_request_empty) # requests w,
               calls := calls w @ [C_SPF_request_new (clientImpl_s c) ?h]\<rparr>)"
    by (simp add: newRequest_def Let_def)
  show ?thesis
  proof (cases "SPF_request_set_env_from L host = SPF_E_SUCCESS")
    case False
    with assms show ?thesis
      by (simp add: Query_def start setEnvFrom_new request_free_new Let_def)
  next
    case env: True
    show ?thesis
    proof (cases "ip_status L ip = SPF_E_SUCCESS")
      case False
      with assms env show ?thesis
        by (simp add: Query_def start setEnvFrom_new setIpAddr_env request_free_new Let_def)
    next
      case ip: True
      show ?thesis
      proof (cases "eval_status L host ip = SPF_E_SUCCESS")
        case False
        with assms env ip show ?thesis
          by (simp add: Query_def start setEnvFrom_new setIpAddr_env request_query_new
              request_free_new' Let_def eval_status_def eval_response_def)
      next
        case True
        with assms env ip show ?thesis
          by (simp add: Query_def start setEnvFrom_new setIpAddr_env request_query_new
              response_result_new response_free_new Suc_fresh_not_response
              request_free_new Let_def eval_status_def eval_response_def split: option.split)
      qed
    qed
  qed
qed

lemma Query_closed:
  "clientImpl_s c = None \<Longrightarrow>
   Query L c host ip w = ((SPFResultINVALID, Some (errors_New ''client already closed'')), c, w)"
  by (simp add: Query_def)

lemma Close_closes: "clientImpl_s (fst (Close c w)) = None"
  by (simp add: Close_def split: option.split)

lemma Close_closed: "clientImpl_s c = None \<Longrightarrow> Close c w = (c, w)"
  by (simp add: Close_def)

lemma Close_times_closed: "clientImpl_s c = None \<Longrightarrow> Close_times n c w = (c, w)"
  by (induction n) (simp_all add: Close_closed)

subsection \<open>The examples' client and library\<close>

lemma NewClient_world0:
  "NewClient world0 = (\<lparr>clientImpl_s = Some 1\<rparr>,
     \<lparr>servers = [1], requests = [], responses = [], calls = [C_SPF_server_new 1]\<rparr>)"
  by (simp add: NewClient_def world0_def fresh_handle_def live_def)

lemma To4_example: "To4 [192, 0, 2, 1] = Some [192, 0, 2, 1]"
  by (simp add: To4_def)

lemma stub_example:
  "SPF_request_set_env_from (stub a) ''example.org'' = SPF_E_SUCCESS"
  "ip_status (stub a) [192, 0, 2, 1] = SPF_E_SUCCESS"
  "eval_status (stub a) host ip = fst a"
  "eval_response (stub a) host ip = snd a"
  "SPF_response_result (stub a) (Some v) = fst v"
  by (simp_all add: stub_def ip_status_def To4_example eval_status_def eval_response_def)

lemma stub_ip_call:
  "ip_call (stub a) h [192, 0, 2, 1] = C_SPF_request_set_ipv4_str (Some h) ''192.0.2.1''"
  by (simp add: ip_call_def stub_def To4_example)

subsection \<open>Results and errors of Query\<close>

text \<open>
  C1, as the code has it. When \<open>Query\<close> reaches the evaluation (the client is open and
  the library has accepted the envelope sender and the address), what it returns is
  decided by the status of \<open>SPF_request_query_mailfrom\<close>: on \<open>SPF_E_SUCCESS\<close> the
  Result of the response, unchanged, temperror and permerror included, with a nil
  error; on any other status the Result none with an error that holds the status,
  whatever Result the response carries. Both are ordinary return values, and
  temperror or permerror never comes together with an error.
\<close>

theorem Query_evaluation_outcome:
  assumes "clientImpl_s c \<noteq> None" "SPF_request_set_env_from L host = SPF_E_SUCCESS"
    "ip_status L ip = SPF_E_SUCCESS"
  shows "fst (Query L c host ip w) =
      (if eval_status L host ip = SPF_E_SUCCESS
       then (SPF_response_result L (eval_response L host ip), None)
       else (SPFResultNONE, Some (spfError (eval_status L host ip))))
    \<and> \<not> (fst (fst (Query L c host ip w)) \<in> {SPFResultTEMPERROR, SPFResultPERMERROR}
          \<and> snd (fst (Query L c host ip w)) \<noteq> None)"
  using assms by (simp add: Query_open Let_def)

theorem Query_evaluation_outcome_witness:
  "fst (Query (stub (SPF_E_SUCCESS, Some (SPFResultTEMPERROR, ''try later''))) (fst (NewClient world0))
        ''example.org'' [192, 0, 2, 1] (snd (NewClient world0))) = (SPFResultTEMPERROR, None)
   \<and> fst (Query (stub (SPF_E_OTHER 26, Some (SPFResultPERMERROR, ''bad record''))) (fst (NewClient world0))
        ''example.org'' [192, 0, 2, 1] (snd (NewClient world0)))
       = (SPFResultNONE, Some (spfError (SPF_E_OTHER 26)))"
proof -
  have c: "clientImpl_s (fst (NewClient world0)) \<noteq> None" by (simp add: NewClient_world0)
  show ?thesis
    using Query_evaluation_outcome [OF c
        stub_example(1) [of "(SPF_E_SUCCESS, Some (SPFResultTEMPERROR, ''try later''))"]
        stub_example(2) [of "(SPF_E_SUCCESS, Some (SPFResultTEMPERROR, ''try later''))"],
        of "snd (NewClient world0)"]
      Query_evaluation_outcome [OF c
        stub_example(1) [of "(SPF_E_OTHER 26, Some (SPFResultPERMERROR, ''bad record''))"]
        stub_example(2) [of "(SPF_E_OTHER 26, Some (SPFResultPERMERROR, ''bad record''))"],
        of "snd (NewClient world0)"]
    by (simp add: stub_example)
qed

text \<open>
  The claim as first stated fails: the evaluation reports temperror through a status
  other than \<open>SPF_E_SUCCESS\<close>, and \<open>Query\<close> returns none in its place.
\<close>

theorem Query_temperror_counterexample:
  "SPF_response_result (stub (SPF_E_OTHER 26, Some (SPFResultTEMPERROR, ''try later'')))
      (eval_response (stub (SPF_E_OTHER 26, Some (SPFResultTEMPERROR, ''try later''))) ''example.org'' [192, 0, 2, 1])
     = SPFResultTEMPERROR
   \<and> fst (Query (stub (SPF_E_OTHER 26, Some (SPFResultTEMPERROR, ''try later''))) (fst (NewClient world0))
        ''example.org'' [192, 0, 2, 1] (snd (NewClient world0)))
       = (SPFResultNONE, Some (spfError (SPF_E_OTHER 26)))"
proof -
  have c: "clientImpl_s (fst (NewClient world0)) \<noteq> None" by (simp add: NewClient_world0)
  show ?thesis
    by (simp add: Query_open [OF c] Let_def stub_example)
qed






text \<open>
  C3, as the code has it. The Result returned by \<open>Query\<close> is invalid exactly when the
  client is closed, the library rejects the envelope sender or the address, or the
  response of a successful evaluation itself carries invalid; in every other case it is
  one of pass, fail, softfail, neutral, permerror, temperror, none.
\<close>

theorem Query_invalid_iff:
  "(fst (fst (Query L c host ip w)) = SPFResultINVALID) =
     (clientImpl_s c = None
      \<or> SPF_request_set_env_from L host \<noteq> SPF_E_SUCCESS
      \<or> ip_status L ip \<noteq> SPF_E_SUCCESS
      \<or> (eval_status L host ip = SPF_E_SUCCESS
          \<and> SPF_response_result L (eval_response L host ip) = SPFResultINVALID))"
proof (cases "clientImpl_s c = None")
  case True
  then show ?thesis by (simp add: Query_closed)
next
  case False
  then show ?thesis by (auto simp: Query_open Let_def)
qed

theorem Query_invalid_iff_witness:
  "fst (fst (Query (stub (SPF_E_SUCCESS, Some (SPFResultPASS, ''ok''))) (fst (NewClient world0))
        ''example.org'' [1, 2, 3] (snd (NewClient world0)))) = SPFResultINVALID
   \<and> fst (fst (Query (stub (SPF_E_SUCCESS, Some (SPFResultPASS, ''ok''))) (fst (NewClient world0))
        ''example.org'' [192, 0, 2, 1] (snd (NewClient world0)))) \<noteq> SPFResultINVALID"
proof -
  have bad: "ip_status (stub (SPF_E_SUCCESS, Some (SPFResultPASS, ''ok''))) [1, 2, 3] \<noteq> SPF_E_SUCCESS"
    by (simp add: ip_status_def stub_def To4_def)
  have c: "clientImpl_s (fst (NewClient world0)) \<noteq> None" by (simp add: NewClient_world0)
  show ?thesis
    using bad c
      Query_invalid_iff [of "stub (SPF_E_SUCCESS, Some (SPFResultPASS, ''ok''))" "fst (NewClient world0)"
        "''example.org''" "[1, 2, 3]" "snd (NewClient world0)"]
      Query_invalid_iff [of "stub (SPF_E_SUCCESS, Some (SPFResultPASS, ''ok''))" "fst (NewClient world0)"
        "''example.org''" "[192, 0, 2, 1]" "snd (NewClient world0)"]
    by (simp add: stub_example)
qed

text \<open>
  The claim as first stated fails: \<open>Query\<close> on a closed client returns invalid as its
  final result.
\<close>

theorem Query_invalid_counterexample:
  "fst (Query (stub (SPF_E_SUCCESS, Some (SPFResultPASS, ''ok'')))
          (fst (Close (fst (NewClient world0)) (snd (NewClient world0))))
          ''example.org'' [192, 0, 2, 1]
          (snd (Close (fst (NewClient world0)) (snd (NewClient world0)))))
     = (SPFResultINVALID, Some (errors_New ''client already closed''))"
  by (simp add: NewClient_world0 Close_def Query_def)

text \<open>
  C6, as the code has it. \<open>Query\<close> returns a Result and an error and nothing else: no
  explanation text is part of what it returns. The pair depends on the library only
  through the statuses of the calls and the Result of the response, so two libraries
  (over any two kinds of response, in any two states of the C side) that agree on
  these give the same pair.
\<close>

theorem Query_value:
  fixes L :: "'a foreign" and L' :: "'b foreign" and w :: "'a cworld" and w' :: "'b cworld"
  assumes "SPF_request_set_env_from L' host = SPF_request_set_env_from L host"
    and "ip_status L' ip = ip_status L ip"
    and "eval_status L' host ip = eval_status L host ip"
    and "SPF_response_result L' (eval_response L' host ip) = SPF_response_result L (eval_response L host ip)"
  shows "fst (Query L' c host ip w') = fst (Query L c host ip w)"
proof (cases "clientImpl_s c = None")
  case True
  then show ?thesis by (simp add: Query_closed)
next
  case False
  then show ?thesis using assms by (simp add: Query_open Let_def)
qed

theorem Query_value_witness:
  "fst (Query (stub (SPF_E_SUCCESS, Some (SPFResultFAIL, ''mail from this host is refused'')))
        (fst (NewClient world0)) ''example.org'' [192, 0, 2, 1] (snd (NewClient world0)))
   = fst (Query (stub (SPF_E_SUCCESS, Some (SPFResultFAIL, ''see the policy of example.org'')))
        (fst (NewClient world0)) ''example.org'' [192, 0, 2, 1] (snd (NewClient world0)))"
  by (rule Query_value) (simp_all add: stub_example)

text \<open>
  The claim as first stated fails: on a fail whose response carries an explanation,
  \<open>Query\<close> returns the Result with a nil error, and a different explanation changes
  nothing of what the call returns or leaves behind.
\<close>

theorem Query_explanation_counterexample:
  "fst (Query (stub (SPF_E_SUCCESS, Some (SPFResultFAIL, ''mail from this host is refused'')))
        (fst (NewClient world0)) ''example.org'' [192, 0, 2, 1] (snd (NewClient world0)))
     = (SPFResultFAIL, None)
   \<and> Query (stub (SPF_E_SUCCESS, Some (SPFResultFAIL, ''mail from this host is refused'')))
        (fst (NewClient world0)) ''example.org'' [192, 0, 2, 1] (snd (NewClient world0))
     = Query (stub (SPF_E_SUCCESS, Some (SPFResultFAIL, ''see the policy of example.org'')))
        (fst (NewClient world0)) ''example.org'' [192, 0, 2, 1] (snd (NewClient world0))"
proof -
  have c: "clientImpl_s (fst (NewClient world0)) \<noteq> None" by (simp add: NewClient_world0)
  show ?thesis
    by (simp add: Query_open [OF c] Let_def stub_example stub_ip_call)
qed

text \<open>
  C7. The string form of each Result other than invalid is the RFC 7208 literal of the
  same name.
\<close>

theorem Result_String_literals:
  "Result_String SPFResultPASS = ''pass''
   \<and> Result_String SPFResultFAIL = ''fail''
   \<and> Result_String SPFResultSOFTFAIL = ''softfail''
   \<and> Result_String SPFResultNEUTRAL = ''neutral''
   \<and> Result_String SPFResultPERMERROR = ''permerror''
   \<and> Result_String SPFResultTEMPERROR = ''temperror''
   \<and> Result_String SPFResultNONE = ''none''"
  by (simp add: Result_String_def SPF_strresult_def)

subsection \<open>The request of one call\<close>

text \<open>
  C8, as the code has it. \<open>Query\<close> never changes the client, the live servers or the
  live requests, and only appends to the log. On a client that is not closed it creates
  exactly one request, on a handle no live object has, as its first call, and frees that
  request as its last call, whichever way it returns; on a closed client it creates none
  and leaves the C side as it was. The responses are as before the call on every path
  but the one where the evaluation reports a status other than \<open>SPF_E_SUCCESS\<close>.
\<close>

theorem Query_request_lifetime:
  "fst (snd (Query L c host ip w)) = c
   \<and> servers (snd (snd (Query L c host ip w))) = servers w
   \<and> requests (snd (snd (Query L c host ip w))) = requests w
   \<and> take (length (calls w)) (calls (snd (snd (Query L c host ip w)))) = calls w
   \<and> (if clientImpl_s c = None then snd (snd (Query L c host ip w)) = w
       else fresh_handle w \<notin> set (live w)
          \<and> filter creates_request (calls_since w (snd (snd (Query L c host ip w))))
              = [C_SPF_request_new (clientImpl_s c) (fresh_handle w)]
          \<and> hd (calls_since w (snd (snd (Query L c host ip w))))
              = C_SPF_request_new (clientImpl_s c) (fresh_handle w)
          \<and> filter frees_request (calls_since w (snd (snd (Query L c host ip w))))
              = [C_SPF_request_free (fresh_handle w)]
          \<and> last (calls (snd (snd (Query L c host ip w)))) = C_SPF_request_free (fresh_handle w))
   \<and> ((clientImpl_s c \<noteq> None \<and> SPF_request_set_env_from L host = SPF_E_SUCCESS
        \<and> ip_status L ip = SPF_E_SUCCESS \<and> eval_status L host ip \<noteq> SPF_E_SUCCESS)
       \<or> responses (snd (snd (Query L c host ip w))) = responses w)"
proof (cases "clientImpl_s c = None")
  case True
  then show ?thesis by (simp add: Query_closed)
next
  case False
  have ipc: "\<not> creates_request (ip_call L h ip)" "\<not> frees_request (ip_call L h ip)" for h
    by (simp_all add: ip_call_def)
  from False show ?thesis
    by (auto simp: Query_open Let_def calls_since_def fresh_handle_notin ipc split: option.split)
qed

theorem Query_request_lifetime_witness:
  "calls (snd (snd (Query (stub (SPF_E_SUCCESS, Some (SPFResultPASS, ''ok''))) (fst (NewClient world0))
        ''example.org'' [192, 0, 2, 1] (snd (NewClient world0)))))
    = [C_SPF_server_new 1, C_SPF_request_new (Some 1) 2,
       C_SPF_request_set_env_from (Some 2) ''example.org'',
       C_SPF_request_set_ipv4_str (Some 2) ''192.0.2.1'',
       C_SPF_request_query_mailfrom (Some 2),
       C_SPF_response_result (Some 3), C_SPF_response_free 3, C_SPF_request_free 2]
   \<and> requests (snd (snd (Query (stub (SPF_E_SUCCESS, Some (SPFResultPASS, ''ok''))) (fst (NewClient world0))
        ''example.org'' [192, 0, 2, 1] (snd (NewClient world0))))) = []
   \<and> responses (snd (snd (Query (stub (SPF_E_SUCCESS, Some (SPFResultPASS, ''ok''))) (fst (NewClient world0))
        ''example.org'' [192, 0, 2, 1] (snd (NewClient world0))))) = []
   \<and> fst (snd (Query (stub (SPF_E_SUCCESS, Some (SPFResultPASS, ''ok''))) (fst (NewClient world0))
        ''example.org'' [192, 0, 2, 1] (snd (NewClient world0)))) = \<lparr>clientImpl_s = Some 1\<rparr>"
proof -
  have c: "clientImpl_s (fst (NewClient world0)) \<noteq> None" by (simp add: NewClient_world0)
  have f: "fresh_handle (snd (NewClient world0)) = 2"
    by (simp add: NewClient_world0 fresh_handle_def live_def)
  have q: "calls (snd (snd (Query (stub (SPF_E_SUCCESS, Some (SPFResultPASS, ''ok''))) (fst (NewClient world0))
        ''example.org'' [192, 0, 2, 1] (snd (NewClient world0)))))
    = [C_SPF_server_new 1, C_SPF_request_new (Some 1) 2,
       C_SPF_request_set_env_from (Some 2) ''example.org'',
       C_SPF_request_set_ipv4_str (Some 2) ''192.0.2.1'',
       C_SPF_request_query_mailfrom (Some 2),
       C_SPF_response_result (Some 3), C_SPF_response_free 3, C_SPF_request_free 2]"
    by (simp add: Query_open [OF c] Let_def stub_example stub_ip_call f) (simp add: NewClient_world0)
  show ?thesis
    using q Query_request_lifetime [of "stub (SPF_E_SUCCESS, Some (SPFResultPASS, ''ok''))"
        "fst (NewClient world0)" "''example.org''" "[192, 0, 2, 1]" "snd (NewClient world0)"]
    by (simp add: NewClient_world0 stub_example)
qed

text \<open>
  The claim as first stated fails: a call on a closed client constructs no request.
\<close>

theorem Query_no_request_counterexample:
  "calls (snd (snd (Query (stub (SPF_E_SUCCESS, Some (SPFResultPASS, ''ok'')))
          (fst (Close (fst (NewClient world0)) (snd (NewClient world0))))
          ''example.org'' [192, 0, 2, 1]
          (snd (Close (fst (NewClient world0)) (snd (NewClient world0)))))))
     = [C_SPF_server_new 1, C_SPF_server_free 1]
   \<and> filter creates_request (calls (snd (snd (Query (stub (SPF_E_SUCCESS, Some (SPFResultPASS, ''ok'')))
          (fst (Close (fst (NewClient world0)) (snd (NewClient world0))))
          ''example.org'' [192, 0, 2, 1]
          (snd (Close (fst (NewClient world0)) (snd (NewClient world0)))))))) = []"
  by (simp add: NewClient_world0 Close_def Query_def)

subsection \<open>Closing the client\<close>

text \<open>
  C9. For every host and address, \<open>Query\<close> on a client that has been closed returns the
  invalid Result and the error "client already closed", and leaves the C side as it
  was: no call into the library is made, so no request is constructed and nothing is
  evaluated.
\<close>

theorem Query_after_Close:
  "Query L (fst (Close c w)) host ip (snd (Close c w)) =
     ((SPFResultINVALID, Some (errors_New ''client already closed'')), fst (Close c w), snd (Close c w))
   \<and> Error L (errors_New ''client already closed'') = ''client already closed''
   \<and> calls (snd (snd (Query L (fst (Close c w)) host ip (snd (Close c w))))) = calls (snd (Close c w))
   \<and> requests (snd (snd (Query L (fst (Close c w)) host ip (snd (Close c w))))) = requests (snd (Close c w))"
  by (simp add: Query_closed [OF Close_closes] Error_def)

text \<open>
  C10. \<open>Close\<close> is idempotent: after the first \<open>Close\<close> the server handle is nil, a
  second \<open>Close\<close> changes nothing, any number of further calls leaves the state of the
  first, and the calls add at most one \<open>SPF_server_free\<close> to the log.
\<close>

theorem Close_idempotent:
  "clientImpl_s (fst (Close c w)) = None
   \<and> Close (fst (Close c w)) (snd (Close c w)) = Close c w
   \<and> Close_times (Suc n) c w = Close c w
   \<and> length (filter frees_server (calls (snd (Close_times n c w))))
       \<le> Suc (length (filter frees_server (calls w)))"
proof -
  have a: "clientImpl_s (fst (Close c w)) = None" by (rule Close_closes)
  have b: "Close (fst (Close c w)) (snd (Close c w)) = Close c w"
    by (simp add: Close_closed [OF a])
  have c: "Close_times (Suc n) c w = Close c w"
    by (simp add: Close_times_closed [OF a])
  have one: "length (filter frees_server (calls (snd (Close c w))))
       \<le> Suc (length (filter frees_server (calls w)))"
    by (simp add: Close_def split: option.split)
  have d: "length (filter frees_server (calls (snd (Close_times n c w))))
       \<le> Suc (length (filter frees_server (calls w)))"
  proof (cases n)
    case 0
    then show ?thesis by simp
  next
    case (Suc m)
    then show ?thesis using one by (simp add: Close_times_closed [OF a])
  qed
  from a b c d show ?thesis by blast
qed

section \<open>Properties of the engine of the specification\<close>

subsection \<open>The budget\<close>




















subsection \<open>Records and the chain of includes\<close>





lemma parse_term_minus_all: "parse_term R ''-all'' = Some (Mechanism K_all Q_minus None None)"
  by (simp add: parse_term_def is_delimiter_def qualifier_of_def mechanism_kind_def to_lower_def
      cidr_of_text_def mechanism_cidr_def valid_argument_def Let_def)





lemma eval_depth_numeral:
  "eval_depth (numeral k) R d ctx b =
     (case lookupTXT R d of
        Inl e \<Rightarrow> (if e = nxdomain then (SPFResultNONE, None, b) else (SPFResultTEMPERROR, None, b))
      | Inr answers \<Rightarrow>
          (case parse R answers of
             Inl r \<Rightarrow> (r, None, b)
           | Inr terms \<Rightarrow> walk (eval_depth (pred_numeral k) R) R (ctx\<lparr>domain := d\<rparr>) terms b terms))"
  by (simp add: numeral_eq_Suc)








subsection \<open>What a lookup costs\<close>


lemma counted_void_spent:
  "dnsLookupsUsed u < 10 \<Longrightarrow> 2 \<le> voidLookupsUsed u \<Longrightarrow> void_answer answer \<Longrightarrow>
   counted u answer =
     Inl (SPFResultPERMERROR, u\<lparr>dnsLookupsUsed := dnsLookupsUsed u + 1, lookupRefused := True\<rparr>)"
  by (auto simp: counted_def consume_lookup_def maxDNSLookups_def note_void_def maxVoidLookups_def
      void_answer_def)







lemma mechanism_void_spent:
  assumes "target_name R ctx arg = Some name" "first_lookup_void R ctx k name"
    "dnsLookupsUsed u < 10" "2 \<le> voidLookupsUsed u"
  shows "fst (mechanism ev R ctx u k arg cidr) = Abort SPFResultPERMERROR"
  using assms
  by (cases k)
    (simp_all add: first_lookup_void_def mechanism_def mech_a_def mech_mx_def mech_ptr_def
      mech_exists_def counted_void_spent)

lemma walk_void_spent:
  assumes "target_name R ctx arg = Some name" "first_lookup_void R ctx k name"
    "dnsLookupsUsed u < 10" "2 \<le> voidLookupsUsed u"
  shows "fst (walk ev R ctx terms u (Mechanism k q arg cidr # ts)) = SPFResultPERMERROR"
  using mechanism_void_spent [OF assms, of ev cidr]
  by (cases "mechanism ev R ctx u k arg cidr") simp









subsection \<open>The record of example.org\<close>

lemma split_example: "split_on CHR ''.'' ''192.0.2.1'' = [''192'', ''0'', ''2'', ''1'']"
  "split_on CHR ''.'' ''192.0.2.2'' = [''192'', ''0'', ''2'', ''2'']"
  by simp_all

lemma number_examples:
  "number ''192'' = Some 192" "number ''0'' = Some 0" "number ''2'' = Some 2" "number ''1'' = Some 1"
  "number ''32'' = Some 32"
  by (simp_all add: number_def digit_value_def)

lemma ip4_example:
  "ip4_of_text ''192.0.2.1'' = Some 3221225985"
  "ip4_of_text ''192.0.2.2'' = Some 3221225986"
  by (simp_all add: ip4_of_text_def split_example number_examples)

lemma address_example:
  "address_of [192, 0, 2, 1] = Some (IPv4 3221225985)"
  "address_of [192, 0, 2, 2] = Some (IPv4 3221225986)"
  by (simp_all add: address_of_def To4_def byte_value_def)

lemma parse_term_ip4:
  "parse_term R ''ip4:192.0.2.1/32'' = Some (Mechanism K_ip4 Q_plus (Some ''192.0.2.1'') (Some (32, 128)))"
  by (simp add: parse_term_def is_delimiter_def qualifier_of_def mechanism_kind_def to_lower_def
      cidr_of_text_def mechanism_cidr_def number_examples valid_argument_def ip4_example Let_def)

lemma tokens_example: "tokens [] (drop 6 ''v=spf1 ip4:192.0.2.1/32 -all'') = [''ip4:192.0.2.1/32'', ''-all'']"
  by (simp add: is_space_def)

lemma is_spf1_example: "is_spf1 ''v=spf1 ip4:192.0.2.1/32 -all''"
  by (simp add: is_spf1_def to_lower_def is_space_def)

lemma parse_example:
  "parse R [''v=spf1 ip4:192.0.2.1/32 -all''] =
     Inr [Mechanism K_ip4 Q_plus (Some ''192.0.2.1'') (Some (32, 128)), Mechanism K_all Q_minus None None]"
proof -
  have terms: "parse_terms R (tokens [] (drop 6 ''v=spf1 ip4:192.0.2.1/32 -all'')) =
      Some [Mechanism K_ip4 Q_plus (Some ''192.0.2.1'') (Some (32, 128)), Mechanism K_all Q_minus None None]"
    by (simp only: tokens_example parse_terms.simps parse_term_ip4 parse_term_minus_all option.case)
  have one: "filter is_spf1 [''v=spf1 ip4:192.0.2.1/32 -all''] = [''v=spf1 ip4:192.0.2.1/32 -all'']"
    using is_spf1_example by simp
  show ?thesis
    unfolding parse_def one by (simp only: terms list.case option.case)
qed

lemma evaluate_example:
  assumes "lookupTXT R (sender_domain host) = Inr [''v=spf1 ip4:192.0.2.1/32 -all'']"
  shows "fst (evaluate R (sender_domain host) (initial_request host (IPv4 3221225985)) fresh_budget)
           = SPFResultPASS"
    and "fst (evaluate R (sender_domain host) (initial_request host (IPv4 3221225986)) fresh_budget)
           = SPFResultFAIL"
  using assms
  by (simp_all add: evaluate_def maxDepth_def initial_request_def eval_depth_numeral
      parse_example mechanism_def mech_ip_def ip4_example covers_def cidr_covers_def
      qualifier_result_def)

lemma sender_domain_example: "sender_domain ''postmaster@example.org'' = ''example.org''"
  by (simp add: sender_domain_def)

text \<open>
  C5. Given a domain whose record is \<open>v=spf1 ip4:192.0.2.1/32 -all\<close> and a library that
  answers as the engine of the specification does, \<open>Query\<close> on an open client, for a
  sender of that domain, returns pass for the client address 192.0.2.1 and fail for
  192.0.2.2, each with a nil error.
\<close>

theorem Query_ip4_record:
  assumes "clientImpl_s c \<noteq> None"
    and "lookupTXT R (sender_domain host) = Inr [''v=spf1 ip4:192.0.2.1/32 -all'']"
    and "engine_backed L R host [192, 0, 2, 1]"
    and "engine_backed L R host [192, 0, 2, 2]"
  shows "fst (Query L c host [192, 0, 2, 1] w) = (SPFResultPASS, None)
       \<and> fst (Query L c host [192, 0, 2, 2] w) = (SPFResultFAIL, None)"
  using assms(1,3,4) evaluate_example [OF assms(2)]
  by (simp add: Query_open Let_def engine_backed_def address_example)

lemma engine_library_backed:
  "engine_backed (engine_library R) R host [192, 0, 2, 1]"
  "engine_backed (engine_library R) R host [192, 0, 2, 2]"
  by (simp_all add: engine_backed_def engine_library_def ip_status_def To4_def eval_status_def
      eval_response_def mailfrom_request_def address_example ip4_example)

theorem Query_ip4_record_witness:
  "fst (Query (engine_library example_engine) (fst (NewClient world0)) ''postmaster@example.org''
         [192, 0, 2, 1] (snd (NewClient world0))) = (SPFResultPASS, None)
   \<and> fst (Query (engine_library example_engine) (fst (NewClient world0)) ''postmaster@example.org''
         [192, 0, 2, 2] (snd (NewClient world0))) = (SPFResultFAIL, None)"
proof -
  have c: "clientImpl_s (fst (NewClient world0)) \<noteq> None" by (simp add: NewClient_world0)
  have r: "lookupTXT example_engine (sender_domain ''postmaster@example.org'') =
      Inr [''v=spf1 ip4:192.0.2.1/32 -all'']"
    by (simp add: example_engine_def sender_domain_example)
  show ?thesis
    by (rule Query_ip4_record [OF c r engine_library_backed])
qed

end
